theory Spec2Isabelle
  imports Complex_Main "HOL-Library.Sublist" "HOL-Library.AList" "HOL-Library.Multiset"
begin

section \<open>JavaScript values and strings\<close>

text \<open>
  The catalog code works on JSON documents received from the model-hosting API. A value is
  one of the JSON kinds, plus \<open>JUndefined\<close> for a missing argument or a missing property.
  An object is the list of its entries in the order \<open>Object.entries\<close> enumerates them,
  with distinct keys, as a parsed document has them. Numbers are rationals: only their
  truthiness and equality are ever inspected. Strings are ASCII.
\<close>

datatype json =
    JUndefined
  | JNull
  | JBool bool
  | JNum rat
  | JStr string
  | JArr "json list"
  | JObj "(string \<times> json) list"

datatype js_error = TypeError

text \<open>Truthiness, as used by \<open>!x\<close>, \<open>x || y\<close>, \<open>x && y\<close> and \<open>if (x)\<close>.\<close>

fun truthy :: "json \<Rightarrow> bool" where
  "truthy JUndefined = False"
| "truthy JNull = False"
| "truthy (JBool b) = b"
| "truthy (JNum n) = (n \<noteq> 0)"
| "truthy (JStr s) = (s \<noteq> [])"
| "truthy (JArr xs) = True"
| "truthy (JObj kvs) = True"

fun isNullish :: "json \<Rightarrow> bool" where
  "isNullish JUndefined = True"
| "isNullish JNull = True"
| "isNullish _ = False"

text \<open>
  \<open>getProp v k\<close> is \<open>v?.k\<close>: the property of an object, and \<open>undefined\<close> on
  \<open>null\<close>, \<open>undefined\<close> and on the primitives and arrays (none of the property names
  read by this code is a built-in member of those). The plain access \<open>v.k\<close> is the same
  except that it throws on a nullish \<open>v\<close>; the callers test \<open>isNullish\<close> first.
\<close>

fun getProp :: "json \<Rightarrow> string \<Rightarrow> json" where
  "getProp (JObj kvs) k = (case map_of kvs k of Some v \<Rightarrow> v | None \<Rightarrow> JUndefined)"
| "getProp _ k = JUndefined"

text \<open>\<open>String.prototype.toLowerCase\<close> on the ASCII letters; other characters are kept.\<close>

definition toLowerChar :: "char \<Rightarrow> char" where
  "toLowerChar c =
     (case map_of (zip ''ABCDEFGHIJKLMNOPQRSTUVWXYZ'' ''abcdefghijklmnopqrstuvwxyz'') c of
        Some l \<Rightarrow> l
      | None \<Rightarrow> c)"

definition toLowerCase :: "string \<Rightarrow> string" where
  "toLowerCase s = map toLowerChar s"

text \<open>\<open>str_includes s t\<close> is \<open>s.includes(t)\<close>: \<open>t\<close> occurs in \<open>s\<close> as a contiguous run.\<close>

fun str_includes :: "string \<Rightarrow> string \<Rightarrow> bool" where
  "str_includes [] t = (t = [])"
| "str_includes (c # s) t = (prefix t (c # s) \<or> str_includes s t)"

text \<open>\<open>xs.join(sep)\<close> on an array of strings.\<close>

fun join :: "string \<Rightarrow> string list \<Rightarrow> string" where
  "join sep [] = []"
| "join sep [x] = x"
| "join sep (x # y # ys) = x @ sep @ join sep (y # ys)"

text \<open>The decimal form of an array index, the key \<open>Object.entries\<close> gives an array element.\<close>

fun showNat :: "nat \<Rightarrow> string" where
  "showNat n =
     (if n < 10 then [''0123456789'' ! n]
      else showNat (n div 10) @ [''0123456789'' ! (n mod 10)])"

definition objectEntries :: "json \<Rightarrow> (string \<times> json) list" where
  "objectEntries j =
     (case j of
        JObj kvs \<Rightarrow> kvs
      | JArr xs \<Rightarrow> zip (map showNat [0..<length xs]) xs
      | JStr s \<Rightarrow> zip (map showNat [0..<length s]) (map (\<lambda>c. JStr [c]) s)
      | _ \<Rightarrow> [])"

section \<open>Schema extractor\<close>

text \<open>
  \<open>extractSimplifiedSchema\<close> (replicate-models service and models routes, the two copies
  are the same): one \<open>paramInfo\<close> per declared property. The fields \<open>isImageInput\<close>,
  \<open>isMask\<close> and \<open>optionalForReferenceImages\<close> are only ever set to \<open>true\<close> or left
  out; \<open>False\<close> stands for the absent field. \<open>ptype\<close> and \<open>pdefault\<close> are the fields
  \<open>type\<close> and \<open>default\<close>. A schema lists its parameters in the order they
  were added.
\<close>

record ParamInfo =
  ptype :: json
  description :: json
  required :: bool
  options :: "json list option"
  pdefault :: "json option"
  format :: "json option"
  isImageInput :: bool
  isMask :: bool
  optionalForReferenceImages :: bool

type_synonym schema = "(string \<times> ParamInfo) list"

text \<open>\<open>modelSchema?.openapi_schema?.components?.schemas?.Input\<close>\<close>

definition inputOf :: "json \<Rightarrow> json" where
  "inputOf modelSchema =
     getProp (getProp (getProp (getProp modelSchema ''openapi_schema'') ''components'') ''schemas'') ''Input''"

text \<open>
  \<open>required.includes(key)\<close>, where \<open>required\<close> is whatever truthy value the schema holds
  under that name: an array is searched for the key, a string for the key as a substring,
  anything else has no \<open>includes\<close> method.
\<close>

definition requiredIncludes :: "json \<Rightarrow> string \<Rightarrow> js_error + bool" where
  "requiredIncludes req key =
     (case req of
        JArr xs \<Rightarrow> Inr (JStr key \<in> set xs)
      | JStr s \<Rightarrow> Inr (str_includes s key)
      | _ \<Rightarrow> Inl TypeError)"

text \<open>\<open>value.allOf.map(item => item.type).filter(Boolean)\<close>\<close>

definition allOfTypes :: "json \<Rightarrow> js_error + json list" where
  "allOfTypes allOf =
     (case allOf of
        JArr items \<Rightarrow>
          (if list_ex isNullish items then Inl TypeError
           else Inr (filter truthy (map (\<lambda>item. getProp item ''type'') items)))
      | _ \<Rightarrow> Inl TypeError)"

text \<open>
  The condition \<open>d && d.toLowerCase().includes(w)\<close> on a description \<open>d\<close>: a truthy
  description that is not a string has no \<open>toLowerCase\<close>.
\<close>

definition descriptionIncludes :: "json \<Rightarrow> string \<Rightarrow> js_error + bool" where
  "descriptionIncludes d w =
     (if \<not> truthy d then Inr False
      else case d of
             JStr s \<Rightarrow> Inr (str_includes (toLowerCase s) w)
           | _ \<Rightarrow> Inl TypeError)"

definition isImageParam :: "string \<Rightarrow> json \<Rightarrow> js_error + bool" where
  "isImageParam key val =
     (if str_includes (toLowerCase key) ''image'' \<or> getProp val ''format'' = JStr ''uri''
      then Inr True
      else descriptionIncludes (getProp val ''description'') ''image'')"

definition isMaskParam :: "string \<Rightarrow> json \<Rightarrow> js_error + bool" where
  "isMaskParam key val =
     (if toLowerCase key = ''mask'' \<or> str_includes (toLowerCase key) ''mask''
      then Inr True
      else descriptionIncludes (getProp val ''description'') ''mask for inpainting'')"

text \<open>The body of the loop over the properties, in the order the source evaluates it.\<close>

definition extractParam :: "json \<Rightarrow> string \<Rightarrow> json \<Rightarrow> js_error + ParamInfo" where
  "extractParam req key val =
     (if isNullish val then Inl TypeError
      else case requiredIncludes req key of
        Inl e \<Rightarrow> Inl e
      | Inr isReq \<Rightarrow>
     (case (if truthy (getProp val ''allOf'') then allOfTypes (getProp val ''allOf'') else Inr []) of
        Inl e \<Rightarrow> Inl e
      | Inr tys \<Rightarrow>
     (case isImageParam key val of
        Inl e \<Rightarrow> Inl e
      | Inr img \<Rightarrow>
     (case isMaskParam key val of
        Inl e \<Rightarrow> Inl e
      | Inr msk \<Rightarrow>
        Inr \<lparr> ptype =
                (case tys of
                   t # _ \<Rightarrow> t
                 | [] \<Rightarrow> (if truthy (getProp val ''type'') then getProp val ''type''
                          else JStr ''string'')),
              description =
                (if truthy (getProp val ''description'') then getProp val ''description''
                 else JStr ''''),
              required = isReq,
              options =
                (case getProp val ''enum'' of JArr xs \<Rightarrow> Some xs | _ \<Rightarrow> None),
              pdefault =
                (if getProp val ''default'' \<noteq> JUndefined then Some (getProp val ''default'')
                 else None),
              format =
                (if truthy (getProp val ''format'') then Some (getProp val ''format'')
                 else None),
              isImageInput = img,
              isMask = msk,
              optionalForReferenceImages = msk \<rparr>))))"

text \<open>
  The loop: \<open>simplified[key] = paramInfo\<close> for each entry, until the first exception.
  The result is the object built so far and the exception, if one was thrown. For the key
  \<open>__proto__\<close> the assignment sets the prototype of \<open>simplified\<close> and adds no
  parameter.
\<close>

fun extractLoop :: "json \<Rightarrow> (string \<times> json) list \<Rightarrow> schema \<Rightarrow> schema \<times> js_error option" where
  "extractLoop req [] simplified = (simplified, None)"
| "extractLoop req ((key, val) # rest) simplified =
     (case extractParam req key val of
        Inl e \<Rightarrow> (simplified, Some e)
      | Inr p \<Rightarrow>
          extractLoop req rest
            (if key = ''__proto__'' then simplified else AList.update key p simplified))"

text \<open>The \<open>try\<close> block: the state of \<open>simplified\<close> when it is left, and how.\<close>

definition extractSimplifiedSchema_try :: "json \<Rightarrow> schema \<times> js_error option" where
  "extractSimplifiedSchema_try modelSchema =
     (let properties = getProp (inputOf modelSchema) ''properties'';
          req = (if truthy (getProp (inputOf modelSchema) ''required'')
                 then getProp (inputOf modelSchema) ''required'' else JArr [])
      in if \<not> truthy properties then ([], None)
         else extractLoop req (objectEntries properties) [])"

text \<open>
  The function with its \<open>catch\<close>, which logs a warning and falls through to
  \<open>return simplified\<close>.
\<close>

definition extractSimplifiedSchema :: "json \<Rightarrow> js_error + schema" where
  "extractSimplifiedSchema modelSchema =
     (case extractSimplifiedSchema_try modelSchema of
        (simplified, None) \<Rightarrow> Inr simplified
      | (simplified, Some e) \<Rightarrow> Inr simplified)"

section \<open>Capability classifiers\<close>

text \<open>
  The replicate-models service classifies a model from its raw schema, by the names of two
  properties. \<open>detectCapabilities_service\<close> is its method \<open>detectCapabilities\<close>; the
  argument \<open>model\<close> is not read. Nothing in its \<open>try\<close> block can throw on a JSON value.
\<close>

record ServiceCapabilities =
  supportsSingleReference :: bool
  supportsMultipleReferences :: bool
  supportsImageToImage :: bool

definition detectCapabilities_service :: "json \<Rightarrow> json \<Rightarrow> ServiceCapabilities" where
  "detectCapabilities_service model modelSchema =
     (let capabilities = \<lparr> supportsSingleReference = False,
                            supportsMultipleReferences = False,
                            supportsImageToImage = False \<rparr>;
          schema = getProp (inputOf modelSchema) ''properties''
      in if truthy schema then
           (let hasImageParam = (getProp schema ''image'' \<noteq> JUndefined);
                hasImagesParam = (getProp schema ''images'' \<noteq> JUndefined);
                capabilities1 =
                  (if hasImageParam
                   then capabilities\<lparr> supportsSingleReference := True,
                                       supportsImageToImage := True \<rparr>
                   else capabilities)
            in if hasImagesParam
               then capabilities1\<lparr> supportsMultipleReferences := True,
                                    supportsSingleReference := True,
                                    supportsImageToImage := True \<rparr>
               else capabilities1)
         else capabilities)"

text \<open>
  The models routes classify a model from its extracted schema (\<open>detectCapabilities\<close> of
  that file). \<open>None\<close> is a missing schema. \<open>supportedAspectRatios\<close> is optional because
  the scorer below tests whether a catalog entry has the field; this function always sets it.
\<close>

record Capabilities =
  textToImage :: bool
  imageToImage :: bool
  supportsReferenceImages :: bool
  supportedAspectRatios :: "json list option"

definition imageInputs :: "schema \<Rightarrow> (string \<times> ParamInfo) list" where
  "imageInputs inputSchema = filter (\<lambda>(key, param). isImageInput param \<and> \<not> isMask param) inputSchema"

definition detectCapabilities :: "schema option \<Rightarrow> Capabilities" where
  "detectCapabilities inputSchema =
     (let capabilities = \<lparr> textToImage = False, imageToImage = False,
                            supportsReferenceImages = False,
                            supportedAspectRatios = Some [] \<rparr>
      in case inputSchema of
           None \<Rightarrow> capabilities\<lparr> textToImage := True \<rparr>
         | Some s \<Rightarrow>
             if length s = 0 then capabilities\<lparr> textToImage := True \<rparr>
             else
               (let c1 = (if map_of s ''prompt'' \<noteq> None
                          then capabilities\<lparr> textToImage := True \<rparr> else capabilities);
                    c2 = (if length (imageInputs s) > 0
                          then c1\<lparr> imageToImage := True, supportsReferenceImages := True \<rparr>
                          else c1)
                in case (case map_of s ''aspect_ratio'' of
                           Some p \<Rightarrow> options p
                         | None \<Rightarrow> None) of
                     Some opts \<Rightarrow> c2\<lparr> supportedAspectRatios := Some opts \<rparr>
                   | None \<Rightarrow>
                       if map_of s ''width'' \<noteq> None \<and> map_of s ''height'' \<noteq> None
                       then c2\<lparr> supportedAspectRatios := Some [JStr ''custom''] \<rparr>
                       else c2\<lparr> supportedAspectRatios := Some [JStr ''1:1''] \<rparr>))"

section \<open>Model catalog with cache and fallback\<close>

text \<open>
  A catalog entry of the replicate-models service. The fields of a fetched entry that the
  fallback entries do not have (\<open>runCount\<close>, \<open>tags\<close>, \<open>isOfficial\<close>,
  \<open>coverImageUrl\<close>, \<open>url\<close>) are read by none of the functions below and are left out.
\<close>

record ServiceModel =
  svc_id :: string
  svc_name :: string
  svc_owner :: string
  svc_fullName :: string
  svc_description :: string
  svc_aspectRatios :: "(string \<times> nat \<times> nat) list"
  svc_capabilities :: ServiceCapabilities
  svc_strengths :: "string list"
  svc_inputSchema :: "schema option"

text \<open>A hand-written parameter of a fallback entry: only some fields are given.\<close>

definition param :: "string \<Rightarrow> string \<Rightarrow> bool \<Rightarrow> json list option \<Rightarrow> json option \<Rightarrow> ParamInfo" where
  "param ty descr req opts dflt =
     \<lparr> ptype = JStr ty, description = JStr descr, required = req, options = opts,
       pdefault = dflt, format = None, isImageInput = False, isMask = False,
       optionalForReferenceImages = False \<rparr>"

definition noReferenceSupport :: ServiceCapabilities where
  "noReferenceSupport =
     \<lparr> supportsSingleReference = False, supportsMultipleReferences = False,
       supportsImageToImage = False \<rparr>"

definition fluxAspectRatios :: "(string \<times> nat \<times> nat) list" where
  "fluxAspectRatios =
     [(''1:1'', 1024, 1024), (''16:9'', 1344, 768), (''21:9'', 1536, 640),
      (''9:16'', 768, 1344), (''4:3'', 1152, 896)]"

definition fluxAspectOptions :: "json list" where
  "fluxAspectOptions = [JStr ''1:1'', JStr ''16:9'', JStr ''21:9'', JStr ''9:16'', JStr ''4:3'']"

definition fallbackModels :: "ServiceModel list" where
  "fallbackModels =
     [\<lparr> svc_id = ''flux-schnell'', svc_name = ''Flux Schnell'',
        svc_owner = ''black-forest-labs'', svc_fullName = ''black-forest-labs/flux-schnell'',
        svc_description = ''Fast image generation with Flux'',
        svc_aspectRatios = fluxAspectRatios,
        svc_capabilities = noReferenceSupport,
        svc_strengths = [''fast'', ''general-purpose'', ''text-to-image''],
        svc_inputSchema = Some
          [(''prompt'', param ''string'' ''Text prompt for image generation'' True None None),
           (''aspect_ratio'', param ''string'' ''Aspect ratio for the image'' False
              (Some fluxAspectOptions) (Some (JStr ''1:1''))),
           (''num_outputs'', param ''integer'' ''Number of images to generate'' False None
              (Some (JNum 1)))] \<rparr>,
      \<lparr> svc_id = ''flux-dev'', svc_name = ''Flux Dev'',
        svc_owner = ''black-forest-labs'', svc_fullName = ''black-forest-labs/flux-dev'',
        svc_description = ''High quality image generation with Flux'',
        svc_aspectRatios = fluxAspectRatios,
        svc_capabilities = noReferenceSupport,
        svc_strengths = [''high-quality'', ''detailed'', ''photorealistic'', ''text-to-image''],
        svc_inputSchema = Some
          [(''prompt'', param ''string'' ''Text prompt for image generation'' True None None),
           (''aspect_ratio'', param ''string'' ''Aspect ratio for the image'' False
              (Some fluxAspectOptions) (Some (JStr ''1:1''))),
           (''guidance_scale'', param ''number'' ''Guidance scale for generation'' False None
              (Some (JNum (7 / 2)))),
           (''num_inference_steps'', param ''integer'' ''Number of denoising steps'' False None
              (Some (JNum 28)))] \<rparr>,
      \<lparr> svc_id = ''stable-diffusion'', svc_name = ''Stable Diffusion'',
        svc_owner = ''stability-ai'', svc_fullName = ''stability-ai/stable-diffusion'',
        svc_description = ''Classic stable diffusion model'',
        svc_aspectRatios = [(''1:1'', 512, 512), (''16:9'', 768, 432), (''9:16'', 432, 768)],
        svc_capabilities = noReferenceSupport,
        svc_strengths = [''versatile'', ''general-purpose'', ''text-to-image''],
        svc_inputSchema = Some
          [(''prompt'', param ''string'' ''Text prompt for image generation'' True None None),
           (''width'', param ''integer'' ''Width of the generated image'' False None
              (Some (JNum 512))),
           (''height'', param ''integer'' ''Height of the generated image'' False None
              (Some (JNum 512))),
           (''negative_prompt'', param ''string'' ''Negative prompt to avoid certain elements''
              False None None)] \<rparr>]"

text \<open>
  The cache object: \<open>cache_data\<close> is its field \<open>data\<close> (\<open>None\<close> for \<open>null\<close>); times
  are milliseconds as \<open>Date.now()\<close> gives them.
\<close>

record modelsCache =
  cache_data :: "ServiceModel list option"
  fetchedAt :: int
  ttl :: int

definition initialCache :: modelsCache where
  "initialCache = \<lparr> cache_data = None, fetchedAt = 0, ttl = 3600000 \<rparr>"

definition isCacheValid :: "modelsCache \<Rightarrow> int \<Rightarrow> bool" where
  "isCacheValid cache now =
     (case cache_data cache of
        None \<Rightarrow> False
      | Some d \<Rightarrow> now - fetchedAt cache < ttl cache)"

text \<open>The filter on \<open>options.referenceImageCount\<close>; \<open>None\<close> is an option left out.\<close>

definition applyReferenceFilter :: "int option \<Rightarrow> ServiceModel list \<Rightarrow> ServiceModel list" where
  "applyReferenceFilter referenceImageCount models =
     (case referenceImageCount of
        None \<Rightarrow> models
      | Some cnt \<Rightarrow>
          if cnt = 0 then models
          else if cnt = 1
            then filter (\<lambda>m. supportsSingleReference (svc_capabilities m)) models
          else if cnt > 1
            then filter (\<lambda>m. supportsMultipleReferences (svc_capabilities m)) models
          else models)"

text \<open>
  \<open>getImageModels\<close>, with the world made explicit: \<open>now\<close> is the clock when the cache is
  tested, \<open>fetched\<close> what \<open>fetchModelsFromAPI\<close> does when it is awaited (\<open>Inl\<close> the
  exception it throws), \<open>fetchTime\<close> the clock after it has returned. The result is what
  the caller gets (\<open>Inl\<close> an exception that escapes) and the cache the call leaves behind.
\<close>

definition getImageModels ::
  "modelsCache \<Rightarrow> int \<Rightarrow> ('e + ServiceModel list) \<Rightarrow> int \<Rightarrow> int option
     \<Rightarrow> ('e + ServiceModel list) \<times> modelsCache" where
  "getImageModels cache now fetched fetchTime referenceImageCount =
     (if isCacheValid cache now
      then (Inr (applyReferenceFilter referenceImageCount
                   (case cache_data cache of Some d \<Rightarrow> d | None \<Rightarrow> [])), cache)
      else case fetched of
             Inr models \<Rightarrow>
               (Inr (applyReferenceFilter referenceImageCount models),
                \<lparr> cache_data = Some models, fetchedAt = fetchTime, ttl = ttl cache \<rparr>)
           | Inl e \<Rightarrow>
               (Inr (applyReferenceFilter referenceImageCount fallbackModels), cache))"

section \<open>Reference-image validation of the generation tool\<close>

text \<open>
  The schema-aware check of \<open>executeGenerateImage\<close>, on the references that are left after
  the normalisation below. The source throws plain \<open>Error\<close>s; the two constructors name
  them.
\<close>

datatype gen_error = ModelDoesNotAcceptReferences | TooManyReferenceImages | ModelNotFound

text \<open>
  The normalisation of the argument \<open>referenceImages\<close>: of an array the strings that are
  not blank are kept, a single string that is not blank is trimmed and taken as a list of
  one, anything else gives no reference. \<open>trim\<close> removes the ASCII white space at both
  ends.
\<close>

definition isSpace :: "char \<Rightarrow> bool" where
  "isSpace c = (c \<in> set [CHR '' '', CHR 0x09, CHR 0x0A, CHR 0x0B, CHR 0x0C, CHR 0x0D])"

definition trim :: "string \<Rightarrow> string" where
  "trim s = rev (dropWhile isSpace (rev (dropWhile isSpace s)))"

definition normalizeReferences :: "json \<Rightarrow> string list" where
  "normalizeReferences referenceImages =
     (if truthy referenceImages then
        (case referenceImages of
           JArr refs \<Rightarrow>
             concat (map (\<lambda>ref. case ref of
                                  JStr s \<Rightarrow> if length (trim s) > 0 then [s] else []
                                | _ \<Rightarrow> []) refs)
         | JStr s \<Rightarrow> if length (trim s) > 0 then [trim s] else []
         | _ \<Rightarrow> [])
      else [])"

text \<open>\<open>model.inputSchema || {}\<close>\<close>

definition schemaOf :: "ServiceModel \<Rightarrow> schema" where
  "schemaOf model = (case svc_inputSchema model of Some s \<Rightarrow> s | None \<Rightarrow> [])"

definition imageInputParams :: "ServiceModel \<Rightarrow> (string \<times> json) list" where
  "imageInputParams model =
     map (\<lambda>(name, p). (name, ptype p))
       (filter (\<lambda>(name, p). isImageInput p = True \<and> \<not> isMask p) (schemaOf model))"

definition arrayImageParams :: "ServiceModel \<Rightarrow> (string \<times> json) list" where
  "arrayImageParams model = filter (\<lambda>p. snd p = JStr ''array'') (imageInputParams model)"

definition validateReferenceImages :: "ServiceModel \<Rightarrow> string list \<Rightarrow> gen_error + unit" where
  "validateReferenceImages model normalizedReferences =
     (if length normalizedReferences > 0 then
        (if length (imageInputParams model) = 0 then Inl ModelDoesNotAcceptReferences
         else if length normalizedReferences > 1 \<and> length (arrayImageParams model) = 0
           then Inl TooManyReferenceImages
         else Inr ())
      else Inr ())"

text \<open>
  The image generation service then adds the references to the input of the provider call,
  choosing the field by its name: \<open>image_input\<close> takes every reference, \<open>image\<close>
  exactly one, and with neither field the references are dropped with a warning. The
  result is the fields added to \<open>inputParams\<close>.
\<close>

definition referenceParams :: "ServiceModel \<Rightarrow> string list \<Rightarrow> gen_error + (string \<times> json) list" where
  "referenceParams model referenceImages =
     (if length referenceImages > 0 then
        (if map_of (schemaOf model) ''image_input'' \<noteq> None
         then Inr [(''image_input'', JArr (map JStr referenceImages))]
         else if map_of (schemaOf model) ''image'' \<noteq> None then
           (if length referenceImages > 1 then Inl TooManyReferenceImages
            else Inr [(''image'', JStr (referenceImages ! 0))])
         else Inr [])
      else Inr [])"

text \<open>
  \<open>getModelById\<close>: the first entry of the catalog, as \<open>getImageModels()\<close> returns it,
  whose id or full name is the one asked for.
\<close>

definition getModelById :: "ServiceModel list \<Rightarrow> string \<Rightarrow> ServiceModel option" where
  "getModelById models modelId =
     find (\<lambda>m. svc_id m = modelId \<or> svc_fullName m = modelId) models"

text \<open>
  The way of the reference images through \<open>executeGenerateImage\<close>: they are normalised,
  the model is looked up and the schema-aware check is made; then \<open>generateImage\<close> looks
  the model up again, under its id, and adds the references to the input by the name of
  the field. Both lookups read the same catalog. The result is the fields added to the
  input, or the first error. The other steps of the two functions (the checks of the
  model id and of the prompt, the dimensions, the provider call) do not depend on the
  references and are left out.
\<close>

definition executeGenerateImage_references ::
  "ServiceModel list \<Rightarrow> string \<Rightarrow> json \<Rightarrow> gen_error + (string \<times> json) list" where
  "executeGenerateImage_references models modelId referenceImages =
     (let normalizedReferences = normalizeReferences referenceImages
      in case getModelById models modelId of
           None \<Rightarrow> Inl ModelNotFound
         | Some model \<Rightarrow>
             (case validateReferenceImages model normalizedReferences of
                Inl e \<Rightarrow> Inl e
              | Inr u \<Rightarrow>
                  (case getModelById models (svc_id model) of
                     None \<Rightarrow> Inl ModelNotFound
                   | Some config \<Rightarrow> referenceParams config normalizedReferences)))"

section \<open>Requirement scorer and filter\<close>

text \<open>
  The model filter service reads its catalog from the summaries file; an entry has the
  capabilities of the routes' classifier and an optional summary written by a language
  model. \<open>model_id\<close> is the field \<open>id\<close>. An optional field is one the source reads with
  \<open>?.\<close> or tests for presence before using it.
\<close>

record QualityProfile =
  speed :: "string option"
  detail :: "string option"
  coherence :: "string option"
  promptFollowing :: "string option"

record Summary =
  oneLinePitch :: string
  bestFor :: "string list option"
  notGoodFor :: "string list option"
  styleStrengths :: "string list option"
  qualityProfile :: "QualityProfile option"
  typicalUseCase :: string

record SummaryModel =
  model_id :: string
  name :: string
  owner :: string
  fullName :: string
  runCount :: nat
  capabilities :: Capabilities
  summary :: "Summary option"

record Requirements =
  needsReferenceImages :: bool
  minQuality :: "string option"
  styleFocus :: "string list option"
  speedPreference :: "string option"
  preferredModel :: "string option"
  useCase :: "string option"
  specialNeeds :: "string list option"
  aspectRatio :: "string option"

text \<open>A string-valued requirement counts when it is present and not the empty string.\<close>

definition given :: "string option \<Rightarrow> bool" where
  "given x = (case x of Some s \<Rightarrow> s \<noteq> [] | None \<Rightarrow> False)"

text \<open>The score and the reasons, as \<open>scoreModel\<close> accumulates them.\<close>

type_synonym scoring = "real \<times> string list"

definition addScore :: "real \<Rightarrow> scoring \<Rightarrow> scoring" where
  "addScore d a = (fst a + d, snd a)"

definition pushReason :: "string \<Rightarrow> scoring \<Rightarrow> scoring" where
  "pushReason t a = (fst a, snd a @ [t])"

text \<open>
  \<open>Math.min(Math.log10(model.runCount || 1) / 10, 1) * 20\<close>, in exact real arithmetic:
  the rounding of the floating-point sum is not modelled.
\<close>

definition popularityScore :: "SummaryModel \<Rightarrow> real" where
  "popularityScore model =
     min (log 10 (real (if runCount model = 0 then 1 else runCount model)) / 10) 1 * 20"

definition matchesPreferred :: "SummaryModel \<Rightarrow> string \<Rightarrow> bool" where
  "matchesPreferred model preferred =
     (let preferredLower = toLowerCase preferred
      in str_includes (toLowerCase (name model)) preferredLower
       \<or> str_includes (toLowerCase (model_id model)) preferredLower
       \<or> str_includes (toLowerCase (owner model)) preferredLower
       \<or> str_includes (toLowerCase (fullName model)) preferredLower)"

definition checkPreferredModel :: "SummaryModel \<Rightarrow> Requirements \<Rightarrow> scoring \<Rightarrow> scoring" where
  "checkPreferredModel model r a =
     (case preferredModel r of
        None \<Rightarrow> a
      | Some p \<Rightarrow>
          if p \<noteq> [] \<and> matchesPreferred model p
          then pushReason ''User explicitly requested this model'' (addScore 100 a)
          else a)"

definition checkReferenceSupport :: "SummaryModel \<Rightarrow> Requirements \<Rightarrow> scoring \<Rightarrow> scoring" where
  "checkReferenceSupport model r a =
     (if needsReferenceImages r then
        (if supportsReferenceImages (capabilities model) \<or> imageToImage (capabilities model)
         then pushReason ''Supports reference images'' (addScore 30 a)
         else pushReason ''Does not support reference images (required)'' (addScore (- 50) a))
      else
        (if textToImage (capabilities model) then addScore 10 a else a))"

definition modelStyles :: "SummaryModel \<Rightarrow> string list" where
  "modelStyles model =
     (case summary model of
        None \<Rightarrow> []
      | Some s \<Rightarrow> (case styleStrengths s of None \<Rightarrow> [] | Some l \<Rightarrow> l))"

definition styleMatches :: "string \<Rightarrow> string \<Rightarrow> bool" where
  "styleMatches reqStyle modelStyle =
     (str_includes (toLowerCase modelStyle) (toLowerCase reqStyle)
      \<or> str_includes (toLowerCase reqStyle) (toLowerCase modelStyle))"

definition matchedStyles :: "SummaryModel \<Rightarrow> string list \<Rightarrow> string list" where
  "matchedStyles model requested =
     filter (\<lambda>reqStyle. list_ex (styleMatches reqStyle) (modelStyles model)) requested"

definition checkStyle :: "SummaryModel \<Rightarrow> Requirements \<Rightarrow> scoring \<Rightarrow> scoring" where
  "checkStyle model r a =
     (case styleFocus r of
        None \<Rightarrow> a
      | Some requested \<Rightarrow>
          if length requested > 0 then
            (if length (modelStyles model) > 0 then
               (if length (matchedStyles model requested) > 0
                then pushReason (''Matches style: '' @ join '', '' (matchedStyles model requested))
                       (addScore (real (length (matchedStyles model requested)) * 15) a)
                else pushReason ''Style mismatch'' (addScore (- 10) a))
             else a)
          else a)"

text \<open>
  \<open>qualityMap[x] || 3\<close> for a quality given as a string, or absent. The names of the
  built-in members of every object (\<open>constructor\<close> and the like) are not quality words
  and not modelled.
\<close>

definition qualityLevel :: "string option \<Rightarrow> nat" where
  "qualityLevel x =
     (case x of
        None \<Rightarrow> 3
      | Some q \<Rightarrow>
          (case map_of [(''low'', 1), (''moderate'', 2), (''good'', 3), (''very-good'', 4),
                         (''excellent'', 5)] q of
             Some n \<Rightarrow> n
           | None \<Rightarrow> 3))"

definition profileOf :: "SummaryModel \<Rightarrow> QualityProfile option" where
  "profileOf model = (case summary model of None \<Rightarrow> None | Some s \<Rightarrow> qualityProfile s)"

definition checkQuality :: "SummaryModel \<Rightarrow> Requirements \<Rightarrow> scoring \<Rightarrow> scoring" where
  "checkQuality model r a =
     (if given (minQuality r) then
        (let minQualityLevel = qualityLevel (minQuality r);
             modelDetail =
               qualityLevel (case profileOf model of None \<Rightarrow> None | Some q \<Rightarrow> detail q);
             modelPromptFollowing =
               qualityLevel (case profileOf model of None \<Rightarrow> None | Some q \<Rightarrow> promptFollowing q);
             a1 = (if modelDetail \<ge> minQualityLevel
                   then pushReason ''Meets quality requirements'' (addScore 10 a)
                   else pushReason ''Below quality requirements'' (addScore (- 20) a))
         in if modelPromptFollowing \<ge> minQualityLevel then addScore 5 a1 else a1)
      else a)"

text \<open>\<open>model.summary?.qualityProfile?.speed || 'moderate'\<close>\<close>

definition modelSpeed :: "SummaryModel \<Rightarrow> string" where
  "modelSpeed model =
     (case (case profileOf model of None \<Rightarrow> None | Some q \<Rightarrow> speed q) of
        None \<Rightarrow> ''moderate''
      | Some s \<Rightarrow> if s = [] then ''moderate'' else s)"

definition checkSpeed :: "SummaryModel \<Rightarrow> Requirements \<Rightarrow> scoring \<Rightarrow> scoring" where
  "checkSpeed model r a =
     (if speedPreference r = Some ''fast'' then
        (if modelSpeed model = ''very-fast'' \<or> modelSpeed model = ''fast''
         then pushReason ''Fast generation'' (addScore 15 a)
         else if modelSpeed model = ''very-slow'' \<or> modelSpeed model = ''slow''
         then pushReason ''Slow generation'' (addScore (- 10) a)
         else a)
      else if speedPreference r = Some ''no'' then
        (if modelSpeed model = ''very-fast'' \<or> modelSpeed model = ''fast''
         then addScore (- 5) a else a)
      else a)"

definition useCaseMatches :: "string \<Rightarrow> string \<Rightarrow> bool" where
  "useCaseMatches useCaseLower entry =
     (str_includes (toLowerCase entry) useCaseLower
      \<or> str_includes useCaseLower (toLowerCase entry))"

definition checkBestFor :: "SummaryModel \<Rightarrow> Requirements \<Rightarrow> scoring \<Rightarrow> scoring" where
  "checkBestFor model r a =
     (case (if given (useCase r) then useCase r else None) of
        None \<Rightarrow> a
      | Some u \<Rightarrow>
          (case (case summary model of None \<Rightarrow> None | Some s \<Rightarrow> bestFor s) of
             None \<Rightarrow> a
           | Some entries \<Rightarrow>
               if list_ex (useCaseMatches (toLowerCase u)) entries
               then pushReason ''Matches use case'' (addScore 20 a)
               else a))"

definition checkAspectRatio :: "SummaryModel \<Rightarrow> Requirements \<Rightarrow> scoring \<Rightarrow> scoring" where
  "checkAspectRatio model r a =
     (case (if given (aspectRatio r) then aspectRatio r else None) of
        None \<Rightarrow> a
      | Some ratio \<Rightarrow>
          (case supportedAspectRatios (capabilities model) of
             None \<Rightarrow> a
           | Some supported \<Rightarrow>
               if JStr ratio \<in> set supported then addScore 5 a
               else if JStr ''custom'' \<in> set supported then addScore 3 a
               else pushReason ''Aspect ratio not supported'' (addScore (- 5) a)))"

text \<open>
  The special needs are searched in \<open>JSON.stringify(model.summary || {})\<close>. The
  serialisation of a summary is a parameter, \<open>stringify\<close>; that of \<open>{}\<close> is \<open>{}\<close>.
\<close>

definition summaryText :: "(Summary \<Rightarrow> string) \<Rightarrow> SummaryModel \<Rightarrow> string" where
  "summaryText stringify model =
     toLowerCase (case summary model of None \<Rightarrow> ''{}'' | Some s \<Rightarrow> stringify s)"

definition matchedNeeds :: "(Summary \<Rightarrow> string) \<Rightarrow> SummaryModel \<Rightarrow> string list \<Rightarrow> string list" where
  "matchedNeeds stringify model needs =
     filter (\<lambda>need. str_includes (summaryText stringify model) (toLowerCase need)) needs"

definition checkSpecialNeeds ::
  "(Summary \<Rightarrow> string) \<Rightarrow> SummaryModel \<Rightarrow> Requirements \<Rightarrow> scoring \<Rightarrow> scoring" where
  "checkSpecialNeeds stringify model r a =
     (case specialNeeds r of
        None \<Rightarrow> a
      | Some needs \<Rightarrow>
          if length needs > 0 \<and> length (matchedNeeds stringify model needs) > 0
          then pushReason (''Supports: '' @ join '', '' (matchedNeeds stringify model needs))
                 (addScore (real (length (matchedNeeds stringify model needs)) * 10) a)
          else a)"

definition checkNotGoodFor :: "SummaryModel \<Rightarrow> Requirements \<Rightarrow> scoring \<Rightarrow> scoring" where
  "checkNotGoodFor model r a =
     (case (if given (useCase r) then useCase r else None) of
        None \<Rightarrow> a
      | Some u \<Rightarrow>
          (case (case summary model of None \<Rightarrow> None | Some s \<Rightarrow> notGoodFor s) of
             None \<Rightarrow> a
           | Some entries \<Rightarrow>
               if list_ex (useCaseMatches (toLowerCase u)) entries
               then pushReason ''Model explicitly not recommended for this use case''
                      (addScore (- 30) a)
               else a))"

text \<open>\<open>scoreModel\<close>: the checks in the order of the source; the result is \<open>{score, reasons}\<close>.\<close>

definition scoreModel :: "(Summary \<Rightarrow> string) \<Rightarrow> SummaryModel \<Rightarrow> Requirements \<Rightarrow> scoring" where
  "scoreModel stringify model r =
     (let a0 = (popularityScore model, []);
          a1 = checkPreferredModel model r a0;
          a2 = checkReferenceSupport model r a1;
          a3 = checkStyle model r a2;
          a4 = checkQuality model r a3;
          a5 = checkSpeed model r a4;
          a6 = checkBestFor model r a5;
          a7 = checkAspectRatio model r a6;
          a8 = checkSpecialNeeds stringify model r a7
      in checkNotGoodFor model r a8)"

text \<open>The three hard filters of \<open>filterAndScoreModels\<close>, each a reason to drop a model.\<close>

definition lacksReferenceSupport :: "SummaryModel \<Rightarrow> Requirements \<Rightarrow> bool" where
  "lacksReferenceSupport model r =
     (needsReferenceImages r
      \<and> \<not> supportsReferenceImages (capabilities model) \<and> \<not> imageToImage (capabilities model))"

definition lacksTextToImage :: "SummaryModel \<Rightarrow> Requirements \<Rightarrow> bool" where
  "lacksTextToImage model r =
     (\<not> needsReferenceImages r \<and> \<not> textToImage (capabilities model))"

definition lacksAspectRatio :: "SummaryModel \<Rightarrow> Requirements \<Rightarrow> bool" where
  "lacksAspectRatio model r =
     (case (if given (aspectRatio r) then aspectRatio r else None) of
        None \<Rightarrow> False
      | Some ratio \<Rightarrow>
          (case supportedAspectRatios (capabilities model) of
             None \<Rightarrow> False
           | Some supported \<Rightarrow>
               JStr ratio \<notin> set supported \<and> JStr ''custom'' \<notin> set supported))"

definition passesHardFilters :: "Requirements \<Rightarrow> SummaryModel \<Rightarrow> bool" where
  "passesHardFilters r model =
     (if lacksReferenceSupport model r then False
      else if lacksTextToImage model r then False
      else if lacksAspectRatio model r then False
      else True)"

text \<open>
  \<open>xs.slice(0, limit)\<close> for an integer \<open>limit\<close>: a negative limit counts from the end.
\<close>

definition slice0 :: "int \<Rightarrow> 'a list \<Rightarrow> 'a list" where
  "slice0 limit xs =
     (if limit < 0 then take (length xs - nat (- limit)) xs else take (nat limit) xs)"

text \<open>
  A scored entry is the model with its \<open>_score\<close> and \<open>_scoreReasons\<close>.
  \<open>scored.sort((a, b) => b._score - a._score)\<close> is the stable sort of the language
  standard, here the stable insertion sort of the library on the negated score.
\<close>

type_synonym scored = "SummaryModel \<times> scoring"

definition score_of :: "scored \<Rightarrow> real" where
  "score_of s = fst (snd s)"

definition scoreAll :: "(Summary \<Rightarrow> string) \<Rightarrow> Requirements \<Rightarrow> SummaryModel list \<Rightarrow> scored list" where
  "scoreAll stringify r models = map (\<lambda>model. (model, scoreModel stringify model r)) models"

definition sortByScore :: "scored list \<Rightarrow> scored list" where
  "sortByScore xs = sort_key (\<lambda>s. - score_of s) xs"

text \<open>
  \<open>filterAndScoreModels\<close>; \<open>allModels\<close> is what \<open>loadModelSummaries\<close> reads from the
  file. The scoring fields are removed from the entries that are returned.
\<close>

definition filterAndScoreModels ::
  "(Summary \<Rightarrow> string) \<Rightarrow> SummaryModel list \<Rightarrow> Requirements \<Rightarrow> int \<Rightarrow> SummaryModel list" where
  "filterAndScoreModels stringify allModels r limit =
     (if length allModels = 0 then []
      else
        (let filtered = filter (passesHardFilters r) allModels;
             scored = scoreAll stringify r filtered;
             topModels = slice0 limit (sortByScore scored)
         in map fst topModels))"

section \<open>Example inputs\<close>

text \<open>A raw model version whose \<open>Input\<close> schema is the given value.\<close>

definition wrapInput :: "json \<Rightarrow> json" where
  "wrapInput inp =
     JObj [(''openapi_schema'',
            JObj [(''components'', JObj [(''schemas'', JObj [(''Input'', inp)])])])]"

text \<open>An inpainting model: an array of image URLs and a mask.\<close>

definition arrayAndMask :: json where
  "arrayAndMask =
     wrapInput (JObj [(''properties'', JObj
       [(''image_input'', JObj [(''type'', JStr ''array''), (''format'', JStr ''uri'')]),
        (''mask'', JObj [(''type'', JStr ''string'')])])])"

definition arrayAndMask_schema :: schema where
  "arrayAndMask_schema =
     [(''image_input'',
       \<lparr> ptype = JStr ''array'', description = JStr [], required = False, options = None,
         pdefault = None, format = Some (JStr ''uri''), isImageInput = True, isMask = False,
         optionalForReferenceImages = False \<rparr>),
      (''mask'',
       \<lparr> ptype = JStr ''string'', description = JStr [], required = False, options = None,
         pdefault = None, format = None, isImageInput = False, isMask = True,
         optionalForReferenceImages = True \<rparr>)]"

text \<open>A model of the service catalog that declares the schema above.\<close>

definition inpaintModel :: ServiceModel where
  "inpaintModel =
     \<lparr> svc_id = ''inpaint'', svc_name = ''Inpaint'', svc_owner = ''acme'',
       svc_fullName = ''acme/inpaint'', svc_description = ''Edits a region of an image'',
       svc_aspectRatios = fluxAspectRatios, svc_capabilities = noReferenceSupport,
       svc_strengths = [''general-purpose''], svc_inputSchema = Some arrayAndMask_schema \<rparr>"




text \<open>
  Entries of the summaries catalog. The serialisation used in the examples stands for
  \<open>JSON.stringify\<close>; the theorems hold for every serialisation.
\<close>

definition exampleStringify :: "Summary \<Rightarrow> string" where
  "exampleStringify s = oneLinePitch s @ '' '' @ typicalUseCase s"

definition textCapabilities :: Capabilities where
  "textCapabilities =
     \<lparr> textToImage = True, imageToImage = False, supportsReferenceImages = False,
       supportedAspectRatios = Some [JStr ''1:1'', JStr ''16:9''] \<rparr>"

definition editCapabilities :: Capabilities where
  "editCapabilities =
     \<lparr> textToImage = True, imageToImage = True, supportsReferenceImages = True,
       supportedAspectRatios = Some [JStr ''custom''] \<rparr>"

definition fluxDev :: SummaryModel where
  "fluxDev =
     \<lparr> model_id = ''flux-dev'', name = ''flux-dev'', owner = ''black-forest-labs'',
       fullName = ''black-forest-labs/flux-dev'', runCount = 1,
       capabilities = textCapabilities,
       summary = Some
         \<lparr> oneLinePitch = ''Detailed photorealistic images'',
           bestFor = Some [''Product photography''],
           notGoodFor = Some [''Anime''],
           styleStrengths = Some [''Photorealistic''],
           qualityProfile = Some \<lparr> speed = Some ''slow'', detail = Some ''good'',
                                    coherence = Some ''good'', promptFollowing = Some ''good'' \<rparr>,
           typicalUseCase = ''Marketing shots'' \<rparr> \<rparr>"

definition fluxSchnell :: SummaryModel where
  "fluxSchnell =
     \<lparr> model_id = ''flux-schnell'', name = ''flux-schnell'', owner = ''black-forest-labs'',
       fullName = ''black-forest-labs/flux-schnell'', runCount = 0,
       capabilities = textCapabilities,
       summary = None \<rparr>"

definition animeModel :: SummaryModel where
  "animeModel =
     \<lparr> model_id = ''anime-xl'', name = ''anime-xl'', owner = ''acme'',
       fullName = ''acme/anime-xl'', runCount = 10,
       capabilities = textCapabilities,
       summary = Some
         \<lparr> oneLinePitch = ''Fast anime illustrations'',
           bestFor = Some [''Anime illustrations''],
           notGoodFor = Some [''Photorealism''],
           styleStrengths = Some [''Anime'', ''Manga''],
           qualityProfile = Some \<lparr> speed = Some ''fast'', detail = Some ''excellent'',
                                    coherence = Some ''good'',
                                    promptFollowing = Some ''excellent'' \<rparr>,
           typicalUseCase = ''Character art'' \<rparr> \<rparr>"

definition editModel :: SummaryModel where
  "editModel =
     \<lparr> model_id = ''edit-pro'', name = ''edit-pro'', owner = ''acme'',
       fullName = ''acme/edit-pro'', runCount = 1,
       capabilities = editCapabilities,
       summary = None \<rparr>"

text \<open>An entry whose schema was empty when it was classified.\<close>

definition bareModel :: SummaryModel where
  "bareModel =
     \<lparr> model_id = ''bare'', name = ''bare'', owner = ''acme'', fullName = ''acme/bare'',
       runCount = 1, capabilities = detectCapabilities (Some []), summary = None \<rparr>"

definition noRequirements :: Requirements where
  "noRequirements =
     \<lparr> needsReferenceImages = False, minQuality = None, styleFocus = None,
       speedPreference = None, preferredModel = None, useCase = None, specialNeeds = None,
       aspectRatio = None \<rparr>"

definition animeRequest :: Requirements where
  "animeRequest =
     \<lparr> needsReferenceImages = False, minQuality = Some ''excellent'',
       styleFocus = Some [''anime''], speedPreference = Some ''fast'',
       preferredModel = Some ''flux-dev'', useCase = Some ''anime'', specialNeeds = None,
       aspectRatio = None \<rparr>"

definition imagesInput :: json where
  "imagesInput =
     wrapInput (JObj [(''properties'', JObj
       [(''prompt'', JObj [(''type'', JStr ''string'')]),
        (''images'', JObj [(''type'', JStr ''array'')])])])"

definition promptOnly :: schema where
  "promptOnly = [(''prompt'', param ''string'' ''Text prompt'' True None None)]"

definition wideRequest :: Requirements where
  "wideRequest = noRequirements\<lparr> aspectRatio := Some ''16:9'' \<rparr>"

definition styleRequest :: Requirements where
  "styleRequest = noRequirements\<lparr> styleFocus := Some [''anime''] \<rparr>"

definition fluxRequest :: Requirements where
  "fluxRequest = noRequirements\<lparr> preferredModel := Some ''flux'' \<rparr>"

definition editRequest :: Requirements where
  "editRequest =
     noRequirements\<lparr> needsReferenceImages := True, preferredModel := Some ''flux-dev'' \<rparr>"

section \<open>Properties of the schema extractor\<close>

lemma inputOf_wrapInput: "inputOf (wrapInput inp) = inp"
  by (simp add: inputOf_def wrapInput_def)

lemma str_includes_sublist: "str_includes s t = sublist t s"
  by (induction s) (auto simp: sublist_Cons_right)

lemmas string_defs = toLowerCase_def toLowerChar_def

text \<open>The \<open>try\<close> block does throw, for instance on a property whose value is \<open>null\<close>.\<close>

lemma extractSimplifiedSchema_try_throws:
  "extractSimplifiedSchema_try (wrapInput (JObj [(''properties'', JObj [(''a'', JNull)])]))
     = ([], Some TypeError)"
  by (simp add: extractSimplifiedSchema_try_def inputOf_wrapInput objectEntries_def
      extractParam_def)

lemma extract_arrayAndMask: "extractSimplifiedSchema arrayAndMask = Inr arrayAndMask_schema"
  by (simp add: arrayAndMask_def arrayAndMask_schema_def extractSimplifiedSchema_def
      extractSimplifiedSchema_try_def inputOf_wrapInput objectEntries_def extractParam_def
      requiredIncludes_def isImageParam_def isMaskParam_def descriptionIncludes_def
      string_defs)

text \<open>
  When the loop ends without an exception, the schema has a parameter for every property
  but \<open>__proto__\<close>, under the same name, and no property had a nullish value.
\<close>

lemma update_fst: "fst ` set (AList.update key p acc) = insert key (fst ` set acc)"
  by (induction acc) auto

lemma extractLoop_keys:
  "extractLoop req kvs acc = (s, None)
   \<Longrightarrow> fst ` set s = fst ` set acc \<union> (fst ` set kvs - {''__proto__''})"
proof (induction kvs arbitrary: acc)
  case Nil
  then show ?case by simp
next
  case (Cons kv kvs)
  obtain key val where kv: "kv = (key, val)" by (cases kv)
  from Cons.prems kv obtain p where p: "extractParam req key val = Inr p"
    and rest: "extractLoop req kvs
                 (if key = ''__proto__'' then acc else AList.update key p acc) = (s, None)"
    by (auto split: sum.splits)
  from Cons.IH [OF rest] kv show ?case by (auto simp: update_fst)
qed

lemma extractLoop_values:
  "extractLoop req kvs acc = (s, None) \<Longrightarrow> v \<in> snd ` set kvs \<Longrightarrow> \<not> isNullish v"
proof (induction kvs arbitrary: acc)
  case Nil
  then show ?case by simp
next
  case (Cons kv kvs)
  obtain key val where kv: "kv = (key, val)" by (cases kv)
  from Cons.prems(1) kv obtain p where p: "extractParam req key val = Inr p"
    and rest: "extractLoop req kvs
                 (if key = ''__proto__'' then acc else AList.update key p acc) = (s, None)"
    by (auto split: sum.splits)
  from p have "\<not> isNullish val" by (auto simp: extractParam_def split: if_splits)
  with Cons.IH [OF rest] Cons.prems(2) kv show ?case by auto
qed

lemma getProp_extracted:
  assumes "getProp (inputOf modelSchema) ''properties'' = JObj kvs"
    and "extractSimplifiedSchema_try modelSchema = (simplified, None)"
    and "k \<noteq> ''__proto__''"
  shows "(getProp (JObj kvs) k \<noteq> JUndefined) = (k \<in> fst ` set simplified)"
proof -
  let ?req = "if truthy (getProp (inputOf modelSchema) ''required'')
              then getProp (inputOf modelSchema) ''required'' else JArr []"
  from assms(1,2) have loop: "extractLoop ?req kvs [] = (simplified, None)"
    by (simp add: extractSimplifiedSchema_try_def objectEntries_def)
  then have "fst ` set simplified = fst ` set kvs - {''__proto__''}"
    using extractLoop_keys [of ?req kvs "[]" simplified] by simp
  with assms(3) have keys: "(k \<in> fst ` set simplified) = (k \<in> fst ` set kvs)"
    by auto
  show ?thesis
  proof (cases "map_of kvs k")
    case None
    then have "k \<notin> fst ` set kvs" by (simp add: map_of_eq_None_iff)
    with None keys show ?thesis by simp
  next
    case (Some v)
    then have "(k, v) \<in> set kvs" by (rule map_of_SomeD)
    then have "v \<in> snd ` set kvs" and "k \<in> fst ` set kvs" by force+
    with loop have "\<not> isNullish v"
      using extractLoop_values [of ?req kvs "[]" simplified v] by simp
    then have "v \<noteq> JUndefined" by auto
    with Some keys \<open>k \<in> fst ` set kvs\<close> show ?thesis by simp
  qed
qed

text \<open>
  Claim C8. The schema extractor never throws: for every input, \<open>null\<close> and
  \<open>undefined\<close> included, it returns a mapping of parameter descriptors, and the mapping is
  empty when the \<open>properties\<close> section is absent (or otherwise falsy).
\<close>

theorem extractSimplifiedSchema_never_throws:
  "(\<exists>simplified. extractSimplifiedSchema modelSchema = Inr simplified)
   \<and> (\<not> truthy (getProp (inputOf modelSchema) ''properties'')
        \<longrightarrow> extractSimplifiedSchema modelSchema = Inr [])"
proof (cases "extractSimplifiedSchema_try modelSchema")
  case (Pair simplified thrown)
  then have "extractSimplifiedSchema modelSchema = Inr simplified"
    by (cases thrown) (simp_all add: extractSimplifiedSchema_def)
  moreover have "\<not> truthy (getProp (inputOf modelSchema) ''properties'') \<Longrightarrow> simplified = []"
    using Pair by (simp add: extractSimplifiedSchema_try_def)
  ultimately show ?thesis by simp
qed

text \<open>
  Claim C8, at \<open>null\<close>, at \<open>undefined\<close> and at a schema that has a \<open>required\<close> list
  but no \<open>properties\<close>.
\<close>

theorem extractSimplifiedSchema_never_throws_witness:
  "extractSimplifiedSchema JNull = Inr []
   \<and> extractSimplifiedSchema JUndefined = Inr []
   \<and> extractSimplifiedSchema (wrapInput (JObj [(''required'', JArr [JStr ''prompt''])])) = Inr []"
  using extractSimplifiedSchema_never_throws [of JNull]
    extractSimplifiedSchema_never_throws [of JUndefined]
    extractSimplifiedSchema_never_throws
      [of "wrapInput (JObj [(''required'', JArr [JStr ''prompt''])])"]
  by (simp add: inputOf_def wrapInput_def)

section \<open>Properties of the capability classifiers\<close>

text \<open>
  Claim C1, at the schema with an array of image URLs and a mask. The extractor finds one
  candidate image input, \<open>image_input\<close>, of type \<open>array\<close>, so the claim asks for
  \<open>supportsMultipleReferences\<close>; the service's classifier reports no support. A catalog
  entry built from this schema is therefore removed by the filter for two references,
  while the generation tool accepts two references for the same entry and passes both
  through \<open>image_input\<close>.
\<close>

theorem supportsMultipleReferences_image_input_missed:
  "extractSimplifiedSchema arrayAndMask = Inr arrayAndMask_schema
   \<and> map fst (imageInputs arrayAndMask_schema) = [''image_input'']
   \<and> map (ptype \<circ> snd) (imageInputs arrayAndMask_schema) = [JStr ''array'']
   \<and> supportsMultipleReferences (detectCapabilities_service JNull arrayAndMask) = False
   \<and> svc_capabilities inpaintModel = detectCapabilities_service JNull arrayAndMask
   \<and> svc_inputSchema inpaintModel = Some arrayAndMask_schema
   \<and> applyReferenceFilter (Some 2) [inpaintModel] = []
   \<and> executeGenerateImage_references [inpaintModel] ''inpaint''
         (JArr [JStr ''https://a/1.png'', JStr ''https://a/2.png''])
       = Inr [(''image_input'', JArr [JStr ''https://a/1.png'', JStr ''https://a/2.png''])]"
proof -
  have caps: "detectCapabilities_service JNull arrayAndMask = noReferenceSupport"
    by (simp add: arrayAndMask_def detectCapabilities_service_def inputOf_wrapInput
        noReferenceSupport_def)
  have inputs: "imageInputs arrayAndMask_schema = [hd arrayAndMask_schema]"
    by (simp add: arrayAndMask_schema_def imageInputs_def)
  have norm: "normalizeReferences (JArr [JStr ''https://a/1.png'', JStr ''https://a/2.png''])
                = [''https://a/1.png'', ''https://a/2.png'']"
    by (simp add: normalizeReferences_def trim_def isSpace_def)
  have run: "executeGenerateImage_references [inpaintModel] ''inpaint''
         (JArr [JStr ''https://a/1.png'', JStr ''https://a/2.png''])
       = Inr [(''image_input'', JArr [JStr ''https://a/1.png'', JStr ''https://a/2.png''])]"
    unfolding executeGenerateImage_references_def norm
    by (simp add: getModelById_def validateReferenceImages_def imageInputParams_def
        arrayImageParams_def referenceParams_def schemaOf_def inpaintModel_def
        arrayAndMask_schema_def)
  have "applyReferenceFilter (Some 2) [inpaintModel] = []"
    by (simp add: applyReferenceFilter_def inpaintModel_def noReferenceSupport_def)
  with caps inputs run show ?thesis
    by (simp add: extract_arrayAndMask)
       (simp add: arrayAndMask_schema_def inpaintModel_def noReferenceSupport_def)
qed

text \<open>
  How the service's classifier decides: the flag is set exactly when the raw schema has a
  \<open>properties\<close> section with a property named \<open>images\<close>. When the properties are an
  object and their extraction completes, that is exactly when the extracted schema has a
  parameter of that name; its type and its flags are not read.
\<close>

lemma supportsMultipleReferences_by_name:
  "supportsMultipleReferences (detectCapabilities_service model modelSchema)
     = (truthy (getProp (inputOf modelSchema) ''properties'')
        \<and> getProp (getProp (inputOf modelSchema) ''properties'') ''images'' \<noteq> JUndefined)
   \<and> (getProp (inputOf modelSchema) ''properties'' = JObj kvs
        \<and> extractSimplifiedSchema_try modelSchema = (simplified, None)
      \<longrightarrow> supportsMultipleReferences (detectCapabilities_service model modelSchema)
            = (''images'' \<in> fst ` set simplified))"
proof -
  have 1: "supportsMultipleReferences (detectCapabilities_service model modelSchema)
     = (truthy (getProp (inputOf modelSchema) ''properties'')
        \<and> getProp (getProp (inputOf modelSchema) ''properties'') ''images'' \<noteq> JUndefined)"
    by (simp add: detectCapabilities_service_def Let_def)
  have "supportsMultipleReferences (detectCapabilities_service model modelSchema)
            = (''images'' \<in> fst ` set simplified)"
    if "getProp (inputOf modelSchema) ''properties'' = JObj kvs"
      and "extractSimplifiedSchema_try modelSchema = (simplified, None)"
    using that getProp_extracted [OF that, of "''images''"] by (simp add: 1)
  with 1 show ?thesis by blast
qed

lemma supportsMultipleReferences_by_name_examples:
  "map fst (fst (extractSimplifiedSchema_try imagesInput)) = [''prompt'', ''images'']
   \<and> snd (extractSimplifiedSchema_try imagesInput) = None
   \<and> supportsMultipleReferences (detectCapabilities_service JNull imagesInput)
   \<and> map fst (fst (extractSimplifiedSchema_try arrayAndMask)) = [''image_input'', ''mask'']
   \<and> snd (extractSimplifiedSchema_try arrayAndMask) = None
   \<and> \<not> supportsMultipleReferences (detectCapabilities_service JNull arrayAndMask)"
proof -
  have try_images: "extractSimplifiedSchema_try imagesInput =
      ([(''prompt'', param ''string'' [] False None None),
        (''images'', (param ''array'' [] False None None)\<lparr>isImageInput := True\<rparr>)], None)"
    by (simp add: imagesInput_def extractSimplifiedSchema_try_def inputOf_wrapInput
        objectEntries_def extractParam_def requiredIncludes_def isImageParam_def
        isMaskParam_def descriptionIncludes_def string_defs param_def)
  have try_array: "extractSimplifiedSchema_try arrayAndMask = (arrayAndMask_schema, None)"
    by (simp add: arrayAndMask_def arrayAndMask_schema_def extractSimplifiedSchema_try_def
        inputOf_wrapInput objectEntries_def extractParam_def requiredIncludes_def
        isImageParam_def isMaskParam_def descriptionIncludes_def string_defs)
  show ?thesis
    unfolding try_images try_array
    by (simp add: imagesInput_def arrayAndMask_def arrayAndMask_schema_def inputOf_wrapInput
        detectCapabilities_service_def)
qed

lemma imageInputs_nonempty:
  "(imageInputs s \<noteq> []) = (\<exists>p \<in> snd ` set s. isImageInput p \<and> \<not> isMask p)"
  by (force simp: imageInputs_def filter_empty_conv)

text \<open>
  Claim C5, as stated, fails. For the empty schema and for a missing one the routes'
  classifier returns before it sets the aspect ratios: the list is empty.
\<close>

theorem supportedAspectRatios_empty_counterexample:
  "supportedAspectRatios (detectCapabilities (Some [])) = Some []
   \<and> supportedAspectRatios (detectCapabilities None) = Some []"
  by (simp add: detectCapabilities_def)

text \<open>
  Claim C5, amended. For every extracted schema, the empty and the missing one included,
  the routes' classifier returns a value with its four fields set: the aspect ratios are
  a list, empty exactly when the schema is missing or empty or its \<open>aspect_ratio\<close>
  parameter has an empty list of options; \<open>textToImage\<close> holds exactly when the schema
  is missing, empty or has a \<open>prompt\<close>; \<open>imageToImage\<close> and
  \<open>supportsReferenceImages\<close> hold exactly when some parameter is an image input and not a
  mask.
\<close>

theorem detectCapabilities_total:
  "(\<exists>ratios. supportedAspectRatios (detectCapabilities inputSchema) = Some ratios
      \<and> (ratios = [] \<longleftrightarrow>
           (inputSchema = None \<or> inputSchema = Some []
            \<or> (\<exists>s p. inputSchema = Some s \<and> map_of s ''aspect_ratio'' = Some p
                  \<and> options p = Some []))))
   \<and> (textToImage (detectCapabilities inputSchema) \<longleftrightarrow>
        (inputSchema = None \<or> inputSchema = Some []
         \<or> (\<exists>s. inputSchema = Some s \<and> ''prompt'' \<in> fst ` set s)))
   \<and> (imageToImage (detectCapabilities inputSchema) \<longleftrightarrow>
        (\<exists>s. inputSchema = Some s \<and> (\<exists>p \<in> snd ` set s. isImageInput p \<and> \<not> isMask p)))
   \<and> supportsReferenceImages (detectCapabilities inputSchema)
        = imageToImage (detectCapabilities inputSchema)"
proof -
  have key: "(map_of s k \<noteq> None) = (k \<in> fst ` set s)" for s :: schema and k
    by (simp add: map_of_eq_None_iff)
  show ?thesis
  proof (cases inputSchema)
    case None
    then show ?thesis by (simp add: detectCapabilities_def)
  next
    case (Some s)
    show ?thesis
    proof (cases "s = []")
      case True
      with Some show ?thesis by (simp add: detectCapabilities_def)
    next
      case False
      with Some show ?thesis
        using imageInputs_nonempty [of s] key [of s "''prompt''"]
        by (auto simp: detectCapabilities_def Let_def split: option.splits)
    qed
  qed
qed

text \<open>
  Claim C5, amended, at a schema with a prompt only and at the schema with an array of
  images and a mask.
\<close>

theorem detectCapabilities_total_witness:
  "supportedAspectRatios (detectCapabilities (Some promptOnly)) = Some [JStr ''1:1'']
   \<and> textToImage (detectCapabilities (Some promptOnly))
   \<and> \<not> imageToImage (detectCapabilities (Some promptOnly))
   \<and> imageToImage (detectCapabilities (Some arrayAndMask_schema))
   \<and> \<not> textToImage (detectCapabilities (Some arrayAndMask_schema))"
  using detectCapabilities_total [of "Some promptOnly"]
    detectCapabilities_total [of "Some arrayAndMask_schema"]
  by (simp add: promptOnly_def arrayAndMask_schema_def detectCapabilities_def imageInputs_def
      param_def)

section \<open>Properties of the reference-image validation\<close>



text \<open>A list of strings that are not blank is its own normalisation.\<close>

lemma normalizeReferences_urls:
  "list_all (\<lambda>u. trim u \<noteq> []) urls \<Longrightarrow> normalizeReferences (JArr (map JStr urls)) = urls"
  by (induction urls) (simp_all add: normalizeReferences_def)

lemma normalizeReferences_examples:
  "normalizeReferences (JArr [JStr ''  '', JNum 3, JStr ''https://a/1.png''])
     = [''https://a/1.png'']"
  "normalizeReferences (JStr '' https://a/1.png '') = [''https://a/1.png'']"
  "normalizeReferences JUndefined = []"
  by (simp_all add: normalizeReferences_def trim_def isSpace_def)


text \<open>
  The choice of the field by name, in the image generation service: for the schema with
  an array and a mask it takes \<open>image_input\<close> and not the mask, and it can refuse
  references that the schema-aware check has accepted.
\<close>

lemma referenceParams_arrayAndMask:
  "referenceParams inpaintModel [''https://a/1.png'', ''https://a/2.png'']
     = Inr [(''image_input'', JArr [JStr ''https://a/1.png'', JStr ''https://a/2.png''])]"
  by (simp add: referenceParams_def schemaOf_def inpaintModel_def arrayAndMask_schema_def)








section \<open>Properties of the catalog cache\<close>

lemma fallbackModels_no_references:
  "list_all (\<lambda>m. \<not> supportsSingleReference (svc_capabilities m)
                   \<and> \<not> supportsMultipleReferences (svc_capabilities m)) fallbackModels"
  by (simp add: fallbackModels_def noReferenceSupport_def)

text \<open>
  Claim C7. When the cache is stale or absent and the live fetch throws,
  \<open>getImageModels\<close> returns normally, whatever the filter, and leaves the cache as it was;
  an unfiltered read (no \<open>referenceImageCount\<close>, or \<open>0\<close>) returns the fallback list, which
  is not empty, and a filtered read returns the fallback list filtered.
\<close>

theorem getImageModels_fallback:
  assumes "\<not> isCacheValid cache now"
  shows "getImageModels cache now (Inl e) fetchTime None = (Inr fallbackModels, cache)
    \<and> getImageModels cache now (Inl e) fetchTime (Some 0) = (Inr fallbackModels, cache)
    \<and> fallbackModels \<noteq> []
    \<and> getImageModels cache now (Inl e) fetchTime referenceImageCount
        = (Inr (applyReferenceFilter referenceImageCount fallbackModels), cache)"
  using assms by (simp add: getImageModels_def applyReferenceFilter_def fallbackModels_def)

text \<open>
  Claim C7, on the cache of a service that has just started and on a cache that went
  stale an hour after a fetch that found no model.
\<close>

theorem getImageModels_fallback_witness:
  "\<not> isCacheValid initialCache 1000
   \<and> getImageModels initialCache 1000 (Inl ''network error'') 1200 None
       = (Inr fallbackModels, initialCache)
   \<and> \<not> isCacheValid \<lparr> cache_data = Some [], fetchedAt = 1000, ttl = 3600000 \<rparr> 3601000
   \<and> getImageModels \<lparr> cache_data = Some [], fetchedAt = 1000, ttl = 3600000 \<rparr> 3601000
         (Inl ''network error'') 3601200 (Some 0)
       = (Inr fallbackModels, \<lparr> cache_data = Some [], fetchedAt = 1000, ttl = 3600000 \<rparr>)
   \<and> length fallbackModels = 3"
  using getImageModels_fallback [of initialCache 1000 "''network error''" 1200 None]
    getImageModels_fallback
      [of "\<lparr> cache_data = Some [], fetchedAt = 1000, ttl = 3600000 \<rparr>" 3601000
          "''network error''" 3601200 None]
  by (simp add: isCacheValid_def initialCache_def fallbackModels_def)

text \<open>
  Claim C10. Every fallback model declares no support for a single and none for multiple
  references, so a read with \<open>referenceImageCount\<close> of one or more, on a stale or absent
  cache with a failing fetch, returns the empty list.
\<close>

theorem fallback_filtered_is_empty:
  assumes "\<not> isCacheValid cache now" and "1 \<le> cnt"
  shows "list_all (\<lambda>m. \<not> supportsSingleReference (svc_capabilities m)
                        \<and> \<not> supportsMultipleReferences (svc_capabilities m)) fallbackModels
    \<and> getImageModels cache now (Inl e) fetchTime (Some cnt) = (Inr [], cache)"
proof -
  have "filter (\<lambda>m. supportsSingleReference (svc_capabilities m)) fallbackModels = []"
    and "filter (\<lambda>m. supportsMultipleReferences (svc_capabilities m)) fallbackModels = []"
    using fallbackModels_no_references by (simp_all add: filter_empty_conv list_all_iff)
  with assms fallbackModels_no_references show ?thesis
    by (simp add: getImageModels_def applyReferenceFilter_def)
qed

text \<open>Claim C10, with one reference and with three, on the cache of a fresh service.\<close>

theorem fallback_filtered_is_empty_witness:
  "\<not> isCacheValid initialCache 1000
   \<and> getImageModels initialCache 1000 (Inl ''network error'') 1200 (Some 1)
       = (Inr [], initialCache)
   \<and> getImageModels initialCache 1000 (Inl ''network error'') 1200 (Some 3)
       = (Inr [], initialCache)"
  using fallback_filtered_is_empty [of initialCache 1000 1 "''network error''" 1200]
    fallback_filtered_is_empty [of initialCache 1000 3 "''network error''" 1200]
  by (simp add: isCacheValid_def initialCache_def)

section \<open>Properties of the requirement scorer\<close>

lemma fst_addScore [simp]: "fst (addScore d a) = fst a + d"
  by (simp add: addScore_def)

lemma fst_pushReason [simp]: "fst (pushReason t a) = fst a"
  by (simp add: pushReason_def)

text \<open>Every check adds to the score an amount that does not depend on the score so far.\<close>

lemma checkPreferredModel_add:
  "fst (checkPreferredModel m r a) = fst a + fst (checkPreferredModel m r (0, []))"
  by (simp add: checkPreferredModel_def split: option.splits)

lemma checkReferenceSupport_add:
  "fst (checkReferenceSupport m r a) = fst a + fst (checkReferenceSupport m r (0, []))"
  by (simp add: checkReferenceSupport_def)

lemma checkStyle_add:
  "fst (checkStyle m r a) = fst a + fst (checkStyle m r (0, []))"
  by (simp add: checkStyle_def split: option.splits)

lemma checkQuality_add:
  "fst (checkQuality m r a) = fst a + fst (checkQuality m r (0, []))"
  by (simp add: checkQuality_def Let_def)

lemma checkSpeed_add:
  "fst (checkSpeed m r a) = fst a + fst (checkSpeed m r (0, []))"
  by (simp add: checkSpeed_def)

lemma checkBestFor_add:
  "fst (checkBestFor m r a) = fst a + fst (checkBestFor m r (0, []))"
  by (simp add: checkBestFor_def split: option.splits)

lemma checkAspectRatio_add:
  "fst (checkAspectRatio m r a) = fst a + fst (checkAspectRatio m r (0, []))"
  by (simp add: checkAspectRatio_def split: option.splits)

lemma checkSpecialNeeds_add:
  "fst (checkSpecialNeeds S m r a) = fst a + fst (checkSpecialNeeds S m r (0, []))"
  by (simp add: checkSpecialNeeds_def split: option.splits)

lemma checkNotGoodFor_add:
  "fst (checkNotGoodFor m r a) = fst a + fst (checkNotGoodFor m r (0, []))"
  by (simp add: checkNotGoodFor_def split: option.splits)

lemma scoreModel_sum:
  "fst (scoreModel S m r) =
     popularityScore m
     + fst (checkPreferredModel m r (0, []))
     + fst (checkReferenceSupport m r (0, []))
     + fst (checkStyle m r (0, []))
     + fst (checkQuality m r (0, []))
     + fst (checkSpeed m r (0, []))
     + fst (checkBestFor m r (0, []))
     + fst (checkAspectRatio m r (0, []))
     + fst (checkSpecialNeeds S m r (0, []))
     + fst (checkNotGoodFor m r (0, []))"
  unfolding scoreModel_def Let_def
  apply (subst checkNotGoodFor_add)
  apply (subst checkSpecialNeeds_add)
  apply (subst checkAspectRatio_add)
  apply (subst checkBestFor_add)
  apply (subst checkSpeed_add)
  apply (subst checkQuality_add)
  apply (subst checkStyle_add)
  apply (subst checkReferenceSupport_add)
  apply (subst checkPreferredModel_add)
  apply simp
  done

text \<open>Only the style check reads \<open>styleFocus\<close>, only the preference check \<open>preferredModel\<close>.\<close>

lemma styleFocus_irrelevant:
  "checkPreferredModel m (r\<lparr>styleFocus := v\<rparr>) = checkPreferredModel m r"
  "checkReferenceSupport m (r\<lparr>styleFocus := v\<rparr>) = checkReferenceSupport m r"
  "checkQuality m (r\<lparr>styleFocus := v\<rparr>) = checkQuality m r"
  "checkSpeed m (r\<lparr>styleFocus := v\<rparr>) = checkSpeed m r"
  "checkBestFor m (r\<lparr>styleFocus := v\<rparr>) = checkBestFor m r"
  "checkAspectRatio m (r\<lparr>styleFocus := v\<rparr>) = checkAspectRatio m r"
  "checkSpecialNeeds S m (r\<lparr>styleFocus := v\<rparr>) = checkSpecialNeeds S m r"
  "checkNotGoodFor m (r\<lparr>styleFocus := v\<rparr>) = checkNotGoodFor m r"
  by (simp_all add: fun_eq_iff checkPreferredModel_def checkReferenceSupport_def
      checkQuality_def checkSpeed_def checkBestFor_def checkAspectRatio_def
      checkSpecialNeeds_def checkNotGoodFor_def)

lemma preferredModel_irrelevant:
  "checkStyle m (r\<lparr>preferredModel := v\<rparr>) = checkStyle m r"
  "checkReferenceSupport m (r\<lparr>preferredModel := v\<rparr>) = checkReferenceSupport m r"
  "checkQuality m (r\<lparr>preferredModel := v\<rparr>) = checkQuality m r"
  "checkSpeed m (r\<lparr>preferredModel := v\<rparr>) = checkSpeed m r"
  "checkBestFor m (r\<lparr>preferredModel := v\<rparr>) = checkBestFor m r"
  "checkAspectRatio m (r\<lparr>preferredModel := v\<rparr>) = checkAspectRatio m r"
  "checkSpecialNeeds S m (r\<lparr>preferredModel := v\<rparr>) = checkSpecialNeeds S m r"
  "checkNotGoodFor m (r\<lparr>preferredModel := v\<rparr>) = checkNotGoodFor m r"
  by (simp_all add: fun_eq_iff checkStyle_def checkReferenceSupport_def checkQuality_def
      checkSpeed_def checkBestFor_def checkAspectRatio_def checkSpecialNeeds_def
      checkNotGoodFor_def)

text \<open>What the output of \<open>filterAndScoreModels\<close> is made of.\<close>

lemma slice0_subset: "set (slice0 limit xs) \<subseteq> set xs"
  by (auto simp: slice0_def dest: in_set_takeD)

lemma map_fst_scoreAll [simp]: "map fst (scoreAll S r ms) = ms"
  by (simp add: scoreAll_def comp_def)

lemma set_sortByScore [simp]: "set (sortByScore xs) = set xs"
  by (simp add: sortByScore_def)

lemma sortByScore_Nil [simp]: "(sortByScore xs = []) = (xs = [])"
proof -
  have "length (sortByScore xs) = length xs" by (simp add: sortByScore_def)
  then show ?thesis by (metis length_0_conv)
qed

lemma filterAndScoreModels_subset:
  "set (filterAndScoreModels S allModels r limit)
     \<subseteq> {m \<in> set allModels. passesHardFilters r m}"
proof -
  let ?scored = "scoreAll S r (filter (passesHardFilters r) allModels)"
  have "set (map fst (slice0 limit (sortByScore ?scored))) \<subseteq> set (map fst ?scored)"
    using slice0_subset [of limit "sortByScore ?scored"]
    by (simp only: set_map set_sortByScore image_mono)
  then show ?thesis
    by (auto simp: filterAndScoreModels_def Let_def)
qed

text \<open>An entry that scores strictly more than every other entry is sorted to the front.\<close>

lemma hd_sortByScore:
  assumes "x \<in> set xs" and "\<forall>y \<in> set xs. y \<noteq> x \<longrightarrow> score_of y < score_of x"
  shows "hd (sortByScore xs) = x"
proof -
  let ?ys = "sortByScore xs"
  have ne: "?ys \<noteq> []" using assms(1) by auto
  then obtain h t where ht: "?ys = h # t" by (cases ?ys) auto
  have "sorted (map (\<lambda>s. - score_of s) ?ys)" by (simp add: sortByScore_def)
  with ht have "\<forall>y \<in> set ?ys. - score_of h \<le> - score_of y" by auto
  with assms(1) have le: "score_of x \<le> score_of h" by simp
  have "h \<in> set xs" using ht set_sortByScore [of xs] by auto
  with assms(2) le have "h = x" by force
  with ht show ?thesis by simp
qed

subsection \<open>Scores of the example entries\<close>

lemmas check_defs = scoreModel_def popularityScore_def checkPreferredModel_def
  matchesPreferred_def checkReferenceSupport_def checkStyle_def modelStyles_def
  matchedStyles_def styleMatches_def checkQuality_def qualityLevel_def profileOf_def
  checkSpeed_def modelSpeed_def checkBestFor_def useCaseMatches_def checkAspectRatio_def
  checkSpecialNeeds_def checkNotGoodFor_def given_def addScore_def pushReason_def

lemmas filter_defs = passesHardFilters_def lacksReferenceSupport_def lacksTextToImage_def
  lacksAspectRatio_def given_def

lemmas request_defs = noRequirements_def animeRequest_def wideRequest_def styleRequest_def
  fluxRequest_def editRequest_def

lemma score_fluxDev_animeRequest:
  "scoreModel exampleStringify fluxDev animeRequest =
     (40, [''User explicitly requested this model'', ''Style mismatch'',
           ''Below quality requirements'', ''Slow generation'',
           ''Model explicitly not recommended for this use case''])"
  by (simp add: check_defs string_defs fluxDev_def animeRequest_def textCapabilities_def)

lemma score_animeModel_animeRequest:
  "scoreModel exampleStringify animeModel animeRequest =
     (77, [''Matches style: anime'', ''Meets quality requirements'', ''Fast generation'',
           ''Matches use case''])"
  by (simp add: check_defs string_defs animeModel_def animeRequest_def textCapabilities_def)

lemma score_fluxRequest:
  "scoreModel exampleStringify animeModel fluxRequest = (12, [])"
  "scoreModel exampleStringify fluxDev fluxRequest
     = (110, [''User explicitly requested this model''])"
  "scoreModel exampleStringify fluxSchnell fluxRequest
     = (110, [''User explicitly requested this model''])"
  by (simp_all add: check_defs string_defs animeModel_def fluxDev_def fluxSchnell_def
      request_defs textCapabilities_def)

lemma score_editRequest:
  "scoreModel exampleStringify editModel editRequest = (30, [''Supports reference images''])"
  by (simp add: check_defs string_defs editModel_def request_defs editCapabilities_def)

lemma passes_examples:
  "passesHardFilters animeRequest fluxDev"
  "passesHardFilters animeRequest animeModel"
  "passesHardFilters fluxRequest fluxDev"
  "passesHardFilters fluxRequest fluxSchnell"
  "passesHardFilters fluxRequest animeModel"
  "passesHardFilters wideRequest fluxDev"
  "passesHardFilters editRequest editModel"
  "\<not> passesHardFilters editRequest fluxDev"
  "passesHardFilters noRequirements bareModel"
  "\<not> passesHardFilters wideRequest bareModel"
  by (simp_all add: filter_defs request_defs fluxDev_def fluxSchnell_def animeModel_def
      editModel_def bareModel_def textCapabilities_def editCapabilities_def
      detectCapabilities_def)

lemma examples_distinct: "animeModel \<noteq> fluxDev"
  by (simp add: animeModel_def fluxDev_def)

subsection \<open>The aspect-ratio filter\<close>

text \<open>
  Claim C2, as stated, fails. An entry whose list of supported aspect ratios is empty, as
  the classifier gives it to a model with an empty schema, passes the hard filters of a
  request without an aspect ratio and is dropped as soon as one is requested.
\<close>

theorem aspect_filter_empty_list_counterexample:
  "supportedAspectRatios (capabilities bareModel) = Some []
   \<and> aspectRatio wideRequest = Some ''16:9''
   \<and> passesHardFilters noRequirements bareModel
   \<and> lacksAspectRatio bareModel wideRequest
   \<and> filterAndScoreModels exampleStringify [bareModel] wideRequest 5 = []"
  by (simp add: passes_examples filterAndScoreModels_def scoreAll_def sortByScore_def
        slice0_def)
     (simp add: bareModel_def detectCapabilities_def request_defs lacksAspectRatio_def
        given_def)

text \<open>
  Claim C2, amended. For a request whose aspect ratio is set (a non-empty string), the
  aspect-ratio filter drops a model exactly when the model has a list of supported
  aspect ratios, empty or not, that contains neither the requested ratio nor
  \<open>custom\<close>. A dropped model is not in the output, and a model with an empty list is
  dropped.
\<close>

theorem aspect_filter_drops_iff:
  assumes "aspectRatio r = Some ratio" and "ratio \<noteq> []"
  shows "(lacksAspectRatio m r \<longleftrightarrow>
            (\<exists>supported. supportedAspectRatios (capabilities m) = Some supported
               \<and> JStr ratio \<notin> set supported \<and> JStr ''custom'' \<notin> set supported))
    \<and> (lacksAspectRatio m r \<longrightarrow> m \<notin> set (filterAndScoreModels S allModels r limit))
    \<and> (supportedAspectRatios (capabilities m) = Some [] \<longrightarrow> lacksAspectRatio m r)"
proof -
  have 1: "lacksAspectRatio m r \<longleftrightarrow>
            (\<exists>supported. supportedAspectRatios (capabilities m) = Some supported
               \<and> JStr ratio \<notin> set supported \<and> JStr ''custom'' \<notin> set supported)"
    using assms by (auto simp: lacksAspectRatio_def given_def split: option.splits)
  have "lacksAspectRatio m r \<Longrightarrow> \<not> passesHardFilters r m"
    by (simp add: passesHardFilters_def)
  then have 2: "lacksAspectRatio m r \<Longrightarrow> m \<notin> set (filterAndScoreModels S allModels r limit)"
    using filterAndScoreModels_subset [of S allModels r limit] by blast
  from 1 2 show ?thesis by auto
qed

text \<open>
  Claim C2, amended, for the ratio 16:9: a model that lists it is kept, a model that
  lists only \<open>custom\<close> is kept, a model with an empty list is dropped.
\<close>

theorem aspect_filter_drops_iff_witness:
  "aspectRatio wideRequest = Some ''16:9''
   \<and> \<not> lacksAspectRatio fluxDev wideRequest
   \<and> \<not> lacksAspectRatio editModel wideRequest
   \<and> lacksAspectRatio bareModel wideRequest
   \<and> bareModel \<notin> set (filterAndScoreModels exampleStringify [fluxDev, bareModel] wideRequest 5)"
  using aspect_filter_drops_iff [of wideRequest "''16:9''" fluxDev exampleStringify "[]" 5]
    aspect_filter_drops_iff [of wideRequest "''16:9''" editModel exampleStringify "[]" 5]
    aspect_filter_drops_iff
      [of wideRequest "''16:9''" bareModel exampleStringify "[fluxDev, bareModel]" 5]
  by (simp add: request_defs fluxDev_def editModel_def bareModel_def textCapabilities_def
      editCapabilities_def detectCapabilities_def)

subsection \<open>The style signal\<close>

lemma matchedStyles_set:
  "set (matchedStyles m requested) =
     {s \<in> set requested. \<exists>t \<in> set (modelStyles m).
        sublist (toLowerCase s) (toLowerCase t) \<or> sublist (toLowerCase t) (toLowerCase s)}"
  by (auto simp: matchedStyles_def styleMatches_def str_includes_sublist list_ex_iff)

text \<open>
  Claim C3, as stated, fails. A model without a summary declares no style strengths; a
  request for the style \<open>anime\<close> matches none of them, and the score is the same as
  without the request: nothing is subtracted.
\<close>

theorem style_penalty_counterexample:
  "styleFocus styleRequest = Some [''anime'']
   \<and> modelStyles fluxSchnell = []
   \<and> matchedStyles fluxSchnell [''anime''] = []
   \<and> scoreModel exampleStringify fluxSchnell styleRequest = (10, [])
   \<and> scoreModel exampleStringify fluxSchnell (styleRequest\<lparr>styleFocus := None\<rparr>) = (10, [])"
  by (simp add: check_defs request_defs fluxSchnell_def textCapabilities_def)

text \<open>
  Claim C3, amended. For a non-empty \<open>styleFocus\<close>, the style signal adds 15 for each
  requested style that matches one of the model's style strengths as a substring in
  either direction, letter case ignored, and subtracts 10 when none matches and the model
  declares at least one style strength; for a model that declares none (no summary, no
  list or an empty list) it leaves the score unchanged.
\<close>

theorem style_contribution:
  assumes "styleFocus r = Some requested" and "requested \<noteq> []"
  shows "fst (scoreModel S m r) = fst (scoreModel S m (r\<lparr>styleFocus := None\<rparr>))
           + (if modelStyles m = [] then 0
              else if matchedStyles m requested = [] then - 10
              else 15 * real (length (matchedStyles m requested)))
     \<and> matchedStyles m requested =
         filter (\<lambda>s. \<exists>t \<in> set (modelStyles m).
                   sublist (toLowerCase s) (toLowerCase t)
                   \<or> sublist (toLowerCase t) (toLowerCase s)) requested"
proof -
  have "fst (checkStyle m r (0, [])) =
          (if modelStyles m = [] then 0
           else if matchedStyles m requested = [] then - 10
           else 15 * real (length (matchedStyles m requested)))"
    using assms by (simp add: checkStyle_def)
  moreover have "fst (checkStyle m (r\<lparr>styleFocus := None\<rparr>) (0, [])) = 0"
    by (simp add: checkStyle_def)
  moreover have "matchedStyles m requested =
         filter (\<lambda>s. \<exists>t \<in> set (modelStyles m).
                   sublist (toLowerCase s) (toLowerCase t)
                   \<or> sublist (toLowerCase t) (toLowerCase s)) requested"
    by (simp add: matchedStyles_def styleMatches_def str_includes_sublist list_ex_iff
        disj_commute)
  ultimately show ?thesis
    by (simp add: scoreModel_sum styleFocus_irrelevant)
qed

text \<open>
  Claim C3, amended, for the style \<open>anime\<close>: a model strong in anime gains 15, a model
  strong in photorealism only loses 10.
\<close>

theorem style_contribution_witness:
  "styleFocus styleRequest = Some [''anime'']
   \<and> fst (scoreModel exampleStringify animeModel styleRequest)
       = fst (scoreModel exampleStringify animeModel (styleRequest\<lparr>styleFocus := None\<rparr>)) + 15
   \<and> fst (scoreModel exampleStringify fluxDev styleRequest)
       = fst (scoreModel exampleStringify fluxDev (styleRequest\<lparr>styleFocus := None\<rparr>)) - 10"
proof -
  have "modelStyles animeModel = [''Anime'', ''Manga'']"
    and "modelStyles fluxDev = [''Photorealistic'']"
    by (simp_all add: modelStyles_def animeModel_def fluxDev_def)
  then have "matchedStyles animeModel [''anime''] = [''anime'']"
    and "matchedStyles fluxDev [''anime''] = []"
    by (simp_all add: matchedStyles_def styleMatches_def string_defs)
  moreover have "styleFocus styleRequest = Some [''anime'']"
    by (simp add: request_defs)
  ultimately show ?thesis
    using style_contribution [of styleRequest "[''anime'']" exampleStringify animeModel]
      style_contribution [of styleRequest "[''anime'']" exampleStringify fluxDev]
      \<open>modelStyles animeModel = [''Anime'', ''Manga'']\<close>
      \<open>modelStyles fluxDev = [''Photorealistic'']\<close>
    by simp
qed

subsection \<open>The explicit model preference\<close>

lemma matchesPreferred_sublist:
  "matchesPreferred m p \<longleftrightarrow>
     sublist (toLowerCase p) (toLowerCase (model_id m))
   \<or> sublist (toLowerCase p) (toLowerCase (name m))
   \<or> sublist (toLowerCase p) (toLowerCase (owner m))
   \<or> sublist (toLowerCase p) (toLowerCase (fullName m))"
  by (auto simp: matchesPreferred_def Let_def str_includes_sublist)

lemma preferred_bonus:
  assumes "preferredModel r = Some p" and "p \<noteq> []"
  shows "fst (scoreModel S m r) = fst (scoreModel S m (r\<lparr>preferredModel := None\<rparr>))
           + (if matchesPreferred m p then 100 else 0)"
proof -
  have "fst (checkPreferredModel m r (0, [])) = (if matchesPreferred m p then 100 else 0)"
    using assms by (simp add: checkPreferredModel_def)
  moreover have "fst (checkPreferredModel m (r\<lparr>preferredModel := None\<rparr>) (0, [])) = 0"
    by (simp add: checkPreferredModel_def)
  ultimately show ?thesis
    by (simp add: scoreModel_sum preferredModel_irrelevant)
qed

lemma first_if_dominant:
  assumes mem: "m \<in> set allModels" and pass: "passesHardFilters r m" and lim: "0 < limit"
    and dom: "\<forall>m' \<in> set allModels. m' \<noteq> m \<longrightarrow> passesHardFilters r m' \<longrightarrow>
                fst (scoreModel S m' r) < fst (scoreModel S m r)"
  shows "hd (filterAndScoreModels S allModels r limit) = m"
proof -
  let ?scored = "scoreAll S r (filter (passesHardFilters r) allModels)"
  let ?x = "(m, scoreModel S m r)"
  have x: "?x \<in> set ?scored" using mem pass by (auto simp: scoreAll_def)
  have "\<forall>y \<in> set ?scored. y \<noteq> ?x \<longrightarrow> score_of y < score_of ?x"
    using dom by (auto simp: scoreAll_def score_of_def)
  with x have hd: "hd (sortByScore ?scored) = ?x" by (rule hd_sortByScore)
  have ne: "sortByScore ?scored \<noteq> []" using x by auto
  have "slice0 limit (sortByScore ?scored) = take (nat limit) (sortByScore ?scored)"
    using lim by (simp add: slice0_def)
  moreover have "0 < nat limit" using lim by simp
  ultimately have "hd (slice0 limit (sortByScore ?scored)) = ?x"
    and "slice0 limit (sortByScore ?scored) \<noteq> []"
    using hd ne by (cases "sortByScore ?scored"; cases "nat limit"; simp)+
  then have "hd (map fst (slice0 limit (sortByScore ?scored))) = m"
    by (simp add: hd_map)
  moreover have "allModels \<noteq> []" using mem by auto
  ultimately show ?thesis by (simp add: filterAndScoreModels_def Let_def)
qed

text \<open>
  Claim C4, as stated, fails. For the anime request below only \<open>flux-dev\<close> matches the
  preferred model, and it is ranked second: the other signals of the other model outweigh
  the bonus. For the edit request only \<open>flux-dev\<close> matches again, and it is not in the
  output at all: it has failed a hard filter.
\<close>

theorem preferred_not_first_counterexample:
  "preferredModel animeRequest = Some ''flux-dev''
   \<and> matchesPreferred fluxDev ''flux-dev''
   \<and> \<not> matchesPreferred animeModel ''flux-dev''
   \<and> filterAndScoreModels exampleStringify [fluxDev, animeModel] animeRequest 5
       = [animeModel, fluxDev]
   \<and> preferredModel editRequest = Some ''flux-dev''
   \<and> \<not> matchesPreferred editModel ''flux-dev''
   \<and> filterAndScoreModels exampleStringify [fluxDev, editModel] editRequest 5 = [editModel]"
proof -
  have "matchesPreferred fluxDev ''flux-dev''"
    and "\<not> matchesPreferred animeModel ''flux-dev''"
    and "\<not> matchesPreferred editModel ''flux-dev''"
    by (simp_all add: matchesPreferred_def string_defs fluxDev_def animeModel_def
        editModel_def)
  moreover have "filterAndScoreModels exampleStringify [fluxDev, animeModel] animeRequest 5
       = [animeModel, fluxDev]"
    by (simp add: filterAndScoreModels_def passes_examples scoreAll_def sortByScore_def
        score_of_def score_fluxDev_animeRequest score_animeModel_animeRequest slice0_def)
  moreover have "filterAndScoreModels exampleStringify [fluxDev, editModel] editRequest 5
       = [editModel]"
    by (simp add: filterAndScoreModels_def passes_examples scoreAll_def sortByScore_def
        score_of_def score_editRequest slice0_def)
  ultimately show ?thesis by (simp add: request_defs)
qed

text \<open>
  Claim C4, amended. For a request whose \<open>preferredModel\<close> is set (a non-empty string),
  a model receives the bonus of 100 exactly when its id, name, owner or full name contains
  the preferred model as a substring, letter case ignored. A model that matches and passes
  the hard filters is first in the output, for a limit of at least one, when no other
  model that passes them matches and each of them scores, from the other signals, less
  than 100 more than it.
\<close>

theorem preferred_bonus_and_rank:
  assumes "preferredModel r = Some p" and "p \<noteq> []"
  shows "fst (scoreModel S m r) = fst (scoreModel S m (r\<lparr>preferredModel := None\<rparr>))
           + (if matchesPreferred m p then 100 else 0)
    \<and> (matchesPreferred m p \<longleftrightarrow>
           sublist (toLowerCase p) (toLowerCase (model_id m))
         \<or> sublist (toLowerCase p) (toLowerCase (name m))
         \<or> sublist (toLowerCase p) (toLowerCase (owner m))
         \<or> sublist (toLowerCase p) (toLowerCase (fullName m)))
    \<and> (m \<in> set allModels \<and> passesHardFilters r m \<and> matchesPreferred m p \<and> 0 < limit
        \<and> (\<forall>m' \<in> set allModels. m' \<noteq> m \<longrightarrow> passesHardFilters r m' \<longrightarrow>
              \<not> matchesPreferred m' p
              \<and> fst (scoreModel S m' (r\<lparr>preferredModel := None\<rparr>))
                  < fst (scoreModel S m (r\<lparr>preferredModel := None\<rparr>)) + 100)
        \<longrightarrow> hd (filterAndScoreModels S allModels r limit) = m)"
proof -
  have bonus: "fst (scoreModel S x r) = fst (scoreModel S x (r\<lparr>preferredModel := None\<rparr>))
           + (if matchesPreferred x p then 100 else 0)" for x
    using assms by (rule preferred_bonus)
  have rank: "hd (filterAndScoreModels S allModels r limit) = m"
    if mem: "m \<in> set allModels" and pass: "passesHardFilters r m"
      and match: "matchesPreferred m p" and lim: "0 < limit"
      and others: "\<forall>m' \<in> set allModels. m' \<noteq> m \<longrightarrow> passesHardFilters r m' \<longrightarrow>
              \<not> matchesPreferred m' p
              \<and> fst (scoreModel S m' (r\<lparr>preferredModel := None\<rparr>))
                  < fst (scoreModel S m (r\<lparr>preferredModel := None\<rparr>)) + 100"
  proof -
    have "\<forall>m' \<in> set allModels. m' \<noteq> m \<longrightarrow> passesHardFilters r m' \<longrightarrow>
            fst (scoreModel S m' r) < fst (scoreModel S m r)"
      using others match bonus [of m] by (auto simp: bonus)
    with mem pass lim show ?thesis by (rule first_if_dominant)
  qed
  from bonus [of m] matchesPreferred_sublist [of m p] rank show ?thesis by blast
qed

text \<open>
  Claim C4, amended, for the preferred model \<open>flux\<close> in a catalog where one model
  matches: it gets the bonus and is first, behind no more popular model.
\<close>

theorem preferred_bonus_and_rank_witness:
  "preferredModel fluxRequest = Some ''flux''
   \<and> matchesPreferred fluxDev ''flux''
   \<and> \<not> matchesPreferred animeModel ''flux''
   \<and> fst (scoreModel exampleStringify fluxDev fluxRequest)
       = fst (scoreModel exampleStringify fluxDev (fluxRequest\<lparr>preferredModel := None\<rparr>)) + 100
   \<and> popularityScore fluxDev < popularityScore animeModel
   \<and> hd (filterAndScoreModels exampleStringify [animeModel, fluxDev] fluxRequest 5) = fluxDev"
proof -
  have pref: "preferredModel fluxRequest = Some ''flux''"
    by (simp add: request_defs)
  have match: "matchesPreferred fluxDev ''flux''" "\<not> matchesPreferred animeModel ''flux''"
    by (simp_all add: matchesPreferred_def string_defs fluxDev_def animeModel_def)
  have base: "scoreModel exampleStringify animeModel (fluxRequest\<lparr>preferredModel := None\<rparr>)
                = (12, [])"
    "scoreModel exampleStringify fluxDev (fluxRequest\<lparr>preferredModel := None\<rparr>) = (10, [])"
    by (simp_all add: check_defs animeModel_def fluxDev_def request_defs
        textCapabilities_def)
  have pop: "popularityScore fluxDev < popularityScore animeModel"
    by (simp add: popularityScore_def fluxDev_def animeModel_def)
  show ?thesis
    using preferred_bonus_and_rank
      [of fluxRequest "''flux''" exampleStringify fluxDev "[animeModel, fluxDev]" 5]
      pref match base pop passes_examples examples_distinct
    by simp
qed

subsection \<open>Determinism and the order of ties\<close>

text \<open>
  Claim C9. The output of \<open>filterAndScoreModels\<close> is determined by the catalog, the
  requirements and the limit. The models that pass the hard filters, with their scores,
  have an arrangement that is descending by score and keeps the catalog order among
  entries of equal score; every such arrangement, cut to the limit and stripped of the
  scores, is the output: two calls on the same catalog, requirements and limit return
  the same models in the same order.
\<close>

theorem filterAndScoreModels_deterministic:
  "(\<exists>ys. mset ys = mset (scoreAll S r (filter (passesHardFilters r) allModels))
        \<and> sorted_wrt (\<lambda>a b. score_of a \<ge> score_of b) ys
        \<and> (\<forall>k. filter (\<lambda>s. score_of s = k) ys
                = filter (\<lambda>s. score_of s = k)
                    (scoreAll S r (filter (passesHardFilters r) allModels))))
   \<and> (\<forall>ys. mset ys = mset (scoreAll S r (filter (passesHardFilters r) allModels))
        \<and> sorted_wrt (\<lambda>a b. score_of a \<ge> score_of b) ys
        \<and> (\<forall>k. filter (\<lambda>s. score_of s = k) ys
                = filter (\<lambda>s. score_of s = k)
                    (scoreAll S r (filter (passesHardFilters r) allModels)))
        \<longrightarrow> filterAndScoreModels S allModels r limit = map fst (slice0 limit ys))"
proof -
  let ?scored = "scoreAll S r (filter (passesHardFilters r) allModels)"
  let ?key = "\<lambda>s. - score_of s"
  have same: "(\<lambda>x. ?key x = - k) = (\<lambda>s. score_of s = k)" for k
    by auto
  have "mset (sortByScore ?scored) = mset ?scored"
    by (simp add: sortByScore_def)
  moreover have "sorted_wrt (\<lambda>a b. score_of a \<ge> score_of b) (sortByScore ?scored)"
    using sorted_sort_key [of ?key ?scored] by (simp add: sortByScore_def sorted_wrt_map)
  moreover have "filter (\<lambda>s. score_of s = k) (sortByScore ?scored)
                   = filter (\<lambda>s. score_of s = k) ?scored" for k
    using sort_key_stable [of ?key "- k" ?scored] by (simp add: sortByScore_def same)
  ultimately have exists: "\<exists>ys. mset ys = mset ?scored
        \<and> sorted_wrt (\<lambda>a b. score_of a \<ge> score_of b) ys
        \<and> (\<forall>k. filter (\<lambda>s. score_of s = k) ys = filter (\<lambda>s. score_of s = k) ?scored)"
    by blast
  have unique: "filterAndScoreModels S allModels r limit = map fst (slice0 limit ys)"
    if perm: "mset ys = mset ?scored"
      and desc: "sorted_wrt (\<lambda>a b. score_of a \<ge> score_of b) ys"
      and stable: "\<forall>k. filter (\<lambda>s. score_of s = k) ys = filter (\<lambda>s. score_of s = k) ?scored"
    for ys
  proof -
    have "sorted (map ?key ys)"
      using desc by (simp add: sorted_wrt_map)
    moreover have "filter (\<lambda>x. ?key k = ?key x) ys = filter (\<lambda>x. ?key k = ?key x) ?scored"
      for k
    proof -
      have "(\<lambda>x. ?key k = ?key x) = (\<lambda>s. score_of s = score_of k)" by auto
      then show ?thesis using stable by simp
    qed
    ultimately have "sort_key ?key ?scored = ys"
      using perm by (intro properties_for_sort_key) auto
    then have sorted: "sortByScore ?scored = ys" by (simp add: sortByScore_def)
    show ?thesis
    proof (cases "allModels = []")
      case True
      with perm have "ys = []" by (simp add: scoreAll_def)
      with True show ?thesis by (simp add: filterAndScoreModels_def slice0_def)
    next
      case False
      with sorted show ?thesis by (simp add: filterAndScoreModels_def Let_def)
    qed
  qed
  from exists unique show ?thesis by blast
qed

text \<open>
  Claim C9, on a catalog of three where the second and the third entry tie ahead of the
  first: they come out in catalog order.
\<close>

theorem filterAndScoreModels_deterministic_witness:
  "scoreAll exampleStringify fluxRequest
       (filter (passesHardFilters fluxRequest) [animeModel, fluxDev, fluxSchnell])
     = [(animeModel, 12, []),
        (fluxDev, 110, [''User explicitly requested this model'']),
        (fluxSchnell, 110, [''User explicitly requested this model''])]
   \<and> filterAndScoreModels exampleStringify [animeModel, fluxDev, fluxSchnell] fluxRequest 2
       = [fluxDev, fluxSchnell]"
proof -
  let ?a = "(animeModel, (12 :: real), [] :: string list)"
  let ?d = "(fluxDev, (110 :: real), [''User explicitly requested this model''])"
  let ?s = "(fluxSchnell, (110 :: real), [''User explicitly requested this model''])"
  have scored: "scoreAll exampleStringify fluxRequest
       (filter (passesHardFilters fluxRequest) [animeModel, fluxDev, fluxSchnell])
     = [?a, ?d, ?s]"
    by (simp add: passes_examples scoreAll_def score_fluxRequest)
  have perm: "mset [?d, ?s, ?a] = mset [?a, ?d, ?s]"
    by simp
  have desc: "sorted_wrt (\<lambda>a b. score_of a \<ge> score_of b) [?d, ?s, ?a]"
    by (simp add: score_of_def)
  have stable: "\<forall>k. filter (\<lambda>s. score_of s = k) [?d, ?s, ?a]
                  = filter (\<lambda>s. score_of s = k) [?a, ?d, ?s]"
    by (simp add: score_of_def)
  have "filterAndScoreModels exampleStringify [animeModel, fluxDev, fluxSchnell] fluxRequest 2
          = map fst (slice0 2 [?d, ?s, ?a])"
    using filterAndScoreModels_deterministic
        [of exampleStringify fluxRequest "[animeModel, fluxDev, fluxSchnell]" 2]
      perm desc stable
    unfolding scored by blast
  then show ?thesis
    using scored by (simp add: slice0_def)
qed

end
